theory Spec2Isabelle
  imports Main
begin

section \<open>The MetaVal tool-info module (benchexec/tools/metaval.py)\<close>

text \<open>
  The module is command-line glue: \<open>cmdline\<close> parses four options of its own out of
  the option list, resolves a wrapped tool-info module by name on first use, changes the
  working directory around the calls into the wrapped module and assembles an argument
  vector; \<open>determine_result\<close> delegates to the wrapped module.

  The embedding is sequential. Every \<open>raise\<close> and \<open>sys.exit\<close> is a value of type
  \<open>error\<close>; instance attributes and the process working directory are passed
  explicitly and returned updated, also on the error paths, because a Python exception
  leaves the mutations made before it in place. The lock only serialises threads and has
  no effect on a sequential run, so it does not appear in the state.
\<close>

subsection \<open>Errors\<close>

type_synonym exc = string

datatype error =
    ArgparseExit              \<comment> \<open>\<open>ArgumentParser.error\<close>: usage message, \<open>SystemExit(2)\<close>\<close>
  | SysExit string            \<comment> \<open>\<open>sys.exit(msg)\<close>: message on stderr, exit status 1\<close>
  | ImportError string        \<comment> \<open>\<open>__import__\<close> of the named module failed\<close>
  | KeyError string           \<comment> \<open>dictionary lookup of a missing key\<close>
  | AttributeError string     \<comment> \<open>read of an attribute that is not set\<close>
  | TypeError                 \<comment> \<open>\<open>os.path.join\<close> given \<open>None\<close>\<close>
  | ValueError                \<comment> \<open>\<open>os.path.relpath\<close> given an empty path\<close>
  | OSError string            \<comment> \<open>\<open>os.chdir\<close> to a path that is not a directory\<close>
  | SubError exc              \<comment> \<open>anything raised inside the wrapped tool-info module\<close>

subsection \<open>Strings\<close>

definition startswith :: "string \<Rightarrow> string \<Rightarrow> bool" where
  "startswith s p = (take (length p) s = p)"

definition endswith :: "string \<Rightarrow> string \<Rightarrow> bool" where
  "endswith s p = (drop (length s - length p) s = p \<and> length p \<le> length s)"

text \<open>\<open>str.split(c)\<close> for a one-character separator: never empty, \<open>''''\<close> gives \<open>['''']\<close>.\<close>

fun split_on :: "char \<Rightarrow> string \<Rightarrow> string list" where
  "split_on c [] = [[]]"
| "split_on c (x # xs) =
     (if x = c then [] # split_on c xs
      else (case split_on c xs of [] \<Rightarrow> [[x]] | y # ys \<Rightarrow> (x # y) # ys))"

text \<open>\<open>sep.join(parts)\<close>.\<close>

fun join_with :: "string \<Rightarrow> string list \<Rightarrow> string" where
  "join_with s [] = []"
| "join_with s [x] = x"
| "join_with s (x # y # ys) = x @ s @ join_with s (y # ys)"

text \<open>
  \<open>str.partition(''='')\<close>: the part before the first \<open>=\<close>, whether there is one, and the
  part after it.
\<close>

definition partition_eq :: "string \<Rightarrow> string \<times> bool \<times> string" where
  "partition_eq s =
     (takeWhile (\<lambda>c. c \<noteq> CHR ''='') s,
      CHR ''='' \<in> set s,
      drop 1 (dropWhile (\<lambda>c. c \<noteq> CHR ''='') s))"

text \<open>
  \<open>str.lower()\<close> on ASCII letters; every other byte is left as it is (Python also folds
  non-ASCII letters, which no module name under \<open>benchexec.tools\<close> contains).
\<close>

definition lower_char :: "char \<Rightarrow> char" where
  "lower_char c =
     (case map_of (zip ''ABCDEFGHIJKLMNOPQRSTUVWXYZ'' ''abcdefghijklmnopqrstuvwxyz'') c of
        Some d \<Rightarrow> d
      | None \<Rightarrow> c)"

definition lower :: "string \<Rightarrow> string" where
  "lower s = map lower_char s"

subsection \<open>posixpath: join, normpath, abspath, relpath\<close>

text \<open>\<open>os.path.join(a, b)\<close> with two string arguments.\<close>

definition join :: "string \<Rightarrow> string \<Rightarrow> string" where
  "join a b =
     (if startswith b ''/'' then b
      else if a = [] \<or> endswith a ''/'' then a @ b
      else a @ ''/'' @ b)"

definition initial_slashes :: "string \<Rightarrow> nat" where
  "initial_slashes path =
     (if startswith path ''/'' then
        (if startswith path ''//'' \<and> \<not> startswith path ''///'' then 2 else 1)
      else 0)"

text \<open>One iteration of the component loop of \<open>normpath\<close>.\<close>

definition norm_step :: "nat \<Rightarrow> string list \<Rightarrow> string \<Rightarrow> string list" where
  "norm_step ini new_comps cmp =
     (if cmp = [] \<or> cmp = ''.'' then new_comps
      else if cmp \<noteq> ''..'' \<or> (ini = 0 \<and> new_comps = [])
                \<or> (new_comps \<noteq> [] \<and> last new_comps = ''..'')
      then new_comps @ [cmp]
      else if new_comps \<noteq> [] then butlast new_comps
      else new_comps)"

definition normpath :: "string \<Rightarrow> string" where
  "normpath path =
     (if path = [] then ''.''
      else
        (let ini = initial_slashes path;
             comps = foldl (norm_step ini) [] (split_on CHR ''/'' path);
             p = replicate ini CHR ''/'' @ join_with ''/'' comps
         in if p = [] then ''.'' else p))"

definition isabs :: "string \<Rightarrow> bool" where
  "isabs s = startswith s ''/''"

text \<open>\<open>os.path.abspath(path)\<close>; the first argument is what \<open>os.getcwd()\<close> returns.\<close>

definition abspath :: "string \<Rightarrow> string \<Rightarrow> string" where
  "abspath cwd path = normpath (if isabs path then path else join cwd path)"

text \<open>Length of the list \<open>commonprefix\<close> returns for two lists of components.\<close>

fun common_len :: "string list \<Rightarrow> string list \<Rightarrow> nat" where
  "common_len (x # xs) (y # ys) = (if x = y then Suc (common_len xs ys) else 0)"
| "common_len _ _ = 0"

text \<open>\<open>os.path.relpath(path)\<close> with the default start, the current directory.\<close>

definition relpath :: "string \<Rightarrow> string \<Rightarrow> error + string" where
  "relpath cwd path =
     (if path = [] then Inl ValueError
      else
        (let start_list = filter (\<lambda>x. x \<noteq> []) (split_on CHR ''/'' (abspath cwd ''.''));
             path_list = filter (\<lambda>x. x \<noteq> []) (split_on CHR ''/'' (abspath cwd path));
             i = common_len start_list path_list;
             rel_list = replicate (length start_list - i) ''..'' @ drop i path_list
         in if rel_list = [] then Inr ''.'' else Inr (join_with ''/'' rel_list)))"

subsection \<open>argparse: the parser built in cmdline\<close>

text \<open>
  \<open>cmdline\<close> builds an \<open>ArgumentParser\<close> with four long options, each storing one string
  (no \<open>type\<close>, no \<open>nargs\<close>, default \<open>None\<close>), the first two required, and calls
  \<open>parse_known_args\<close>. The functions below follow \<open>ArgumentParser._parse_known_args\<close>
  and \<open>_parse_optional\<close> of CPython 3.11 for exactly this parser: no positional
  arguments, no single-dash options, abbreviations allowed, prefix character \<open>-\<close>.
  Every error of the parser ends in \<open>ArgumentParser.error\<close>, which prints to the error
  stream and exits with status 2.
\<close>

datatype action = MetavalWitness | Metaval | MetavalAdditionalPATH | MetavalWitnessType

text \<open>The option strings, in the order of the \<open>add_argument\<close> calls.\<close>

definition option_string_actions :: "(string \<times> action) list" where
  "option_string_actions =
     [(''--metavalWitness'', MetavalWitness),
      (''--metaval'', Metaval),
      (''--metavalAdditionalPATH'', MetavalAdditionalPATH),
      (''--metavalWitnessType'', MetavalWitnessType)]"

text \<open>The namespace: every destination starts as \<open>None\<close>.\<close>

record knownargs =
  metavalWitness :: "string option"
  metaval :: "string option"
  metavalAdditionalPATH :: "string option"
  metavalWitnessType :: "string option"

definition empty_namespace :: knownargs where
  "empty_namespace =
     \<lparr>metavalWitness = None, metaval = None,
      metavalAdditionalPATH = None, metavalWitnessType = None\<rparr>"

fun store :: "action \<Rightarrow> string \<Rightarrow> knownargs \<Rightarrow> knownargs" where
  "store MetavalWitness v ns = ns\<lparr>metavalWitness := Some v\<rparr>"
| "store Metaval v ns = ns\<lparr>metaval := Some v\<rparr>"
| "store MetavalAdditionalPATH v ns = ns\<lparr>metavalAdditionalPATH := Some v\<rparr>"
| "store MetavalWitnessType v ns = ns\<lparr>metavalWitnessType := Some v\<rparr>"

text \<open>
  The classes of an argument string: \<open>A\<close> in the pattern (\<open>Positional\<close>), \<open>O\<close> with an
  action and maybe an explicit argument after \<open>=\<close> (\<open>Known\<close>), \<open>O\<close> without an action
  (\<open>Unknown\<close>), and the first \<open>--\<close> (\<open>DoubleDash\<close>).
\<close>

datatype arg_class = Positional | Known action "string option" | Unknown | DoubleDash

definition is_digit :: "char \<Rightarrow> bool" where
  "is_digit c = (c \<in> set ''0123456789'')"

text \<open>
  The regular expression \<open>^-\d+$|^-\d*\.\d+$\<close> under \<open>match\<close>, on ASCII digits; \<open>$\<close>
  also matches before a final newline.
\<close>

definition negative_number_body :: "string \<Rightarrow> bool" where
  "negative_number_body s =
     (case s of
        [] \<Rightarrow> False
      | c # r \<Rightarrow>
          c = CHR ''-'' \<and>
          (let r1 = dropWhile is_digit r in
             (r \<noteq> [] \<and> r1 = []) \<or>
             (case r1 of
                [] \<Rightarrow> False
              | d # r2 \<Rightarrow> d = CHR ''.'' \<and> r2 \<noteq> [] \<and> list_all is_digit r2)))"

definition negative_number_matcher :: "string \<Rightarrow> bool" where
  "negative_number_matcher s =
     (negative_number_body s \<or>
      (s \<noteq> [] \<and> last s = CHR 0x0A \<and> negative_number_body (butlast s)))"

text \<open>
  \<open>_get_option_tuples\<close>: for a string that starts with two dashes, every option string
  that the part before \<open>=\<close> is a prefix of; for a single dash, the option strings that
  start with the whole string, of which this parser has none.
\<close>

definition get_option_tuples :: "string \<Rightarrow> arg_class list" where
  "get_option_tuples arg_string =
     (if startswith arg_string ''--'' then
        (case partition_eq arg_string of
           (option_prefix, sep, explicit_arg) \<Rightarrow>
             map (\<lambda>(s, a). Known a (if sep then Some explicit_arg else None))
                 (filter (\<lambda>(s, a). startswith s option_prefix) option_string_actions))
      else
        map (\<lambda>(s, a). Known a None)
            (filter (\<lambda>(s, a). s = take 2 arg_string \<or> startswith s arg_string)
                    option_string_actions))"

definition parse_optional :: "string \<Rightarrow> error + arg_class" where
  "parse_optional arg_string =
     (if arg_string = [] then Inr Positional
      else if hd arg_string \<noteq> CHR ''-'' then Inr Positional
      else
        (case map_of option_string_actions arg_string of
           Some a \<Rightarrow> Inr (Known a None)
         | None \<Rightarrow>
             if length arg_string = 1 then Inr Positional
             else
               (case partition_eq arg_string of
                  (option_string, sep, explicit_arg) \<Rightarrow>
                    (case (if sep then map_of option_string_actions option_string else None) of
                       Some a \<Rightarrow> Inr (Known a (Some explicit_arg))
                     | None \<Rightarrow>
                         (case get_option_tuples arg_string of
                            _ # _ # _ \<Rightarrow> Inl ArgparseExit
                          | [t] \<Rightarrow> Inr t
                          | [] \<Rightarrow>
                              if negative_number_matcher arg_string then Inr Positional
                              else if CHR '' '' \<in> set arg_string then Inr Positional
                              else Inr Unknown)))))"

text \<open>
  The first loop of \<open>_parse_known_args\<close>: classify every string; all strings after the
  first \<open>--\<close> are arguments. An ambiguous abbreviation ends the parse here.
\<close>

fun classify :: "string list \<Rightarrow> error + (string \<times> arg_class) list" where
  "classify [] = Inr []"
| "classify (s # ss) =
     (if s = ''--'' then Inr ((s, DoubleDash) # map (\<lambda>t. (t, Positional)) ss)
      else
        (case parse_optional s of
           Inl e \<Rightarrow> Inl e
         | Inr c \<Rightarrow>
             (case classify ss of
                Inl e \<Rightarrow> Inl e
              | Inr cs \<Rightarrow> Inr ((s, c) # cs))))"

text \<open>
  The second loop, \<open>consume_optional\<close> alternating with the collection of extras. A known
  option takes its explicit argument or else needs the very next string to be an
  argument (pattern \<open>A\<close>); everything not consumed is appended to the extras in order.
  The result also records which actions were seen.
\<close>

fun consume ::
  "(string \<times> arg_class) list \<Rightarrow> knownargs \<Rightarrow> action list \<Rightarrow> string list
     \<Rightarrow> error + (knownargs \<times> action list \<times> string list)" where
  "consume [] ns seen extras = Inr (ns, seen, extras)"
| "consume ((s, Known a (Some v)) # rest) ns seen extras =
     consume rest (store a v ns) (a # seen) extras"
| "consume ((s, Known a None) # (v, Positional) # rest) ns seen extras =
     consume rest (store a v ns) (a # seen) extras"
| "consume ((s, Known a None) # rest) ns seen extras = Inl ArgparseExit"
| "consume ((s, c) # rest) ns seen extras = consume rest ns seen (extras @ [s])"

definition parse_known_args :: "string list \<Rightarrow> error + (knownargs \<times> string list)" where
  "parse_known_args arg_strings =
     (case classify arg_strings of
        Inl e \<Rightarrow> Inl e
      | Inr cs \<Rightarrow>
          (case consume cs empty_namespace [] [] of
             Inl e \<Rightarrow> Inl e
           | Inr (ns, seen, extras) \<Rightarrow>
               if MetavalWitness \<in> set seen \<and> Metaval \<in> set seen
               then Inr (ns, extras)
               else Inl ArgparseExit))"

subsection \<open>The collaborators: wrapped tool-info modules, the process, the installation\<close>

type_synonym rlimits = "(string \<times> int) list"

text \<open>
  A wrapped tool-info module offers the three entry points of the tool-info contract.
  What they return may depend on the working directory they are called in, which is the
  first argument of each field; they may raise. They are taken to leave the working
  directory as they found it.
\<close>

record subtool =
  wrapped_executable :: "string \<Rightarrow> exc + string"
  wrapped_cmdline ::
    "string \<Rightarrow> string \<Rightarrow> string list \<Rightarrow> string list \<Rightarrow> string \<Rightarrow> rlimits \<Rightarrow> exc + string list"
  wrapped_determine_result ::
    "string \<Rightarrow> int \<Rightarrow> int \<Rightarrow> string list \<Rightarrow> bool \<Rightarrow> exc + string"

text \<open>
  What the adapter does to its surroundings, in order: module imports, \<open>os.chdir\<close> calls
  (with the path asked for) and the calls into the wrapped module (with the working
  directory they ran in and their arguments).
\<close>

datatype event =
    Import string
  | Chdir string
  | WrappedExecutable string
  | WrappedCmdline string string "string list" "string list" string rlimits
  | WrappedDetermineResult string int int "string list" bool

text \<open>
  The process: \<open>cwd\<close> is what \<open>os.getcwd()\<close> returns (it is taken to return, that is,
  the process is in a directory), \<open>trace\<close> the events so far.
\<close>

record world =
  cwd :: string
  trace :: "event list"

text \<open>
  The installation, fixed during a run (no directory is created, removed or renamed
  while the adapter works): \<open>chdir_target p\<close> is the directory \<open>os.getcwd()\<close> reports
  after a successful \<open>os.chdir(p)\<close> and \<open>None\<close> when \<open>os.chdir(p)\<close> raises;
  \<open>modules m\<close> is the instance \<open>__import__(m, fromlist=["Tool"]).Tool()\<close> evaluates to
  and \<open>None\<close> when that expression raises, whatever it raises (the model reports it as
  \<open>ImportError\<close>).
\<close>

record env =
  chdir_target :: "string \<Rightarrow> string option"
  modules :: "string \<Rightarrow> subtool option"

text \<open>
  The instance attributes that \<open>cmdline\<close> sets; \<open>None\<close> is an attribute that does not
  exist, so \<open>hasattr(self, "wrappedTool")\<close> is \<open>wrappedTool self \<noteq> None\<close>. The
  constructor sets neither.
\<close>

record tool =
  verifierName :: "string option"
  wrappedTool :: "subtool option"

definition init :: tool where
  "init = \<lparr>verifierName = None, wrappedTool = None\<rparr>"

definition TOOL_TO_PATH_MAP :: "(string \<times> string) list" where
  "TOOL_TO_PATH_MAP =
     [(''cpachecker-metaval'', ''CPAchecker''),
      (''cpachecker'', ''CPAchecker-1.7-svn 29852-unix''),
      (''esbmc'', ''esbmc''),
      (''symbiotic'', ''symbiotic''),
      (''yogar-cbmc'', ''yogar-cbmc''),
      (''ultimateautomizer'', ''UAutomizer-linux'')]"

definition REQUIRED_PATHS :: "string list" where
  "REQUIRED_PATHS = map snd TOOL_TO_PATH_MAP"

definition name :: string where
  "name = ''metaval''"

definition record_event :: "event \<Rightarrow> world \<Rightarrow> world" where
  "record_event ev w = w\<lparr>trace := trace w @ [ev]\<rparr>"

definition chdir :: "env \<Rightarrow> string \<Rightarrow> world \<Rightarrow> (error + unit) \<times> world" where
  "chdir env path w =
     (case chdir_target env path of
        None \<Rightarrow> (Inl (OSError path), record_event (Chdir path) w)
      | Some d \<Rightarrow> (Inr (), (record_event (Chdir path) w)\<lparr>cwd := d\<rparr>))"

definition raised_by_wrapped :: "exc + 'a \<Rightarrow> error + 'a" where
  "raised_by_wrapped r = (case r of Inl e \<Rightarrow> Inl (SubError e) | Inr x \<Rightarrow> Inr x)"

subsection \<open>The adapter\<close>

text \<open>
  \<open>_in_tool_directory\<close>: the \<open>try\<close> part reads the working directory, looks the recorded
  identifier up in the map, changes into the tool's directory and runs the body of the
  \<open>with\<close> statement with the old directory; the \<open>finally\<close> part changes back on every
  path, and an error it raises replaces the outcome of the \<open>try\<close> part.
\<close>

definition in_tool_directory ::
  "env \<Rightarrow> tool \<Rightarrow> (string \<Rightarrow> world \<Rightarrow> (error + 'a) \<times> world) \<Rightarrow> world
     \<Rightarrow> (error + 'a) \<times> world" where
  "in_tool_directory env self body w =
     (let oldcwd = cwd w;
          tried =
            (case verifierName self of
               None \<Rightarrow> (Inl (AttributeError ''verifierName''), w)
             | Some v \<Rightarrow>
                 (case map_of TOOL_TO_PATH_MAP v of
                    None \<Rightarrow> (Inl (KeyError v), w)
                  | Some d \<Rightarrow>
                      (case chdir env (join oldcwd d) w of
                         (Inl e, w1) \<Rightarrow> (Inl e, w1)
                       | (Inr _, w1) \<Rightarrow> body oldcwd w1)))
      in (case chdir env oldcwd (snd tried) of
            (Inl e, w2) \<Rightarrow> (Inl e, w2)
          | (Inr _, w2) \<Rightarrow> (fst tried, w2)))"

definition determine_result ::
  "env \<Rightarrow> tool \<Rightarrow> int \<Rightarrow> int \<Rightarrow> string list \<Rightarrow> bool \<Rightarrow> world \<Rightarrow> (error + string) \<times> world" where
  "determine_result env self returncode returnsignal output isTimeout w =
     (case wrappedTool self of
        None \<Rightarrow> (Inr ''METAVAL ERROR'', w)
      | Some t \<Rightarrow>
          in_tool_directory env self
            (\<lambda>oldcwd w1.
               (raised_by_wrapped
                  (wrapped_determine_result t (cwd w1) returncode returnsignal output isTimeout),
                record_event
                  (WrappedDetermineResult (cwd w1) returncode returnsignal output isTimeout) w1))
            w)"

text \<open>
  Lines 104 to 112 of \<open>cmdline\<close>, the block under the lock. The identifier is stored
  before the import is tried, so it stays stored when the import raises.
\<close>

definition resolve_wrapped_tool ::
  "env \<Rightarrow> tool \<Rightarrow> string \<Rightarrow> world \<Rightarrow> (error + unit) \<times> tool \<times> world" where
  "resolve_wrapped_tool env self vname w =
     (if wrappedTool self = None then
        (let self1 = self\<lparr>verifierName := Some vname\<rparr>;
             module = ''benchexec.tools.'' @ vname;
             w1 = record_event (Import module) w
         in (case modules env module of
               None \<Rightarrow> (Inl (ImportError module), self1, w1)
             | Some t \<Rightarrow> (Inr (), self1\<lparr>wrappedTool := Some t\<rparr>, w1)))
      else
        (case verifierName self of
           None \<Rightarrow> (Inl (AttributeError ''verifierName''), self, w)
         | Some recorded \<Rightarrow>
             if \<not> vname = recorded
             then (Inl (SysExit ''metaval is called with mixed wrapped tools''), self, w)
             else (Inr (), self, w)))"

text \<open>
  The body of the \<open>with\<close> statement in \<open>cmdline\<close>: the arguments of the wrapped
  \<open>cmdline\<close> are evaluated left to right, so the wrapped \<open>executable()\<close> runs first and
  \<open>os.path.join\<close> meets a property file that is \<open>None\<close> after it.
\<close>

definition wrapped_options ::
  "subtool \<Rightarrow> string list \<Rightarrow> string option \<Rightarrow> rlimits \<Rightarrow> string \<Rightarrow> world
     \<Rightarrow> (error + string list) \<times> world" where
  "wrapped_options t options propertyfile rlimits oldcwd w =
     (let w1 = record_event (WrappedExecutable (cwd w)) w
      in (case wrapped_executable t (cwd w) of
            Inl e \<Rightarrow> (Inl (SubError e), w1)
          | Inr exe \<Rightarrow>
              (case relpath (cwd w) (join oldcwd ''output/ARG.c'') of
                 Inl e \<Rightarrow> (Inl e, w1)
               | Inr task \<Rightarrow>
                   (case propertyfile of
                      None \<Rightarrow> (Inl TypeError, w1)
                    | Some pf \<Rightarrow>
                        (case relpath (cwd w) (join oldcwd pf) of
                           Inl e \<Rightarrow> (Inl e, w1)
                         | Inr pf_rel \<Rightarrow>
                             (raised_by_wrapped
                                (wrapped_cmdline t (cwd w) exe options [task] pf_rel rlimits),
                              record_event
                                (WrappedCmdline (cwd w) exe options [task] pf_rel rlimits)
                                w1))))))"

text \<open>
  \<open>cmdline\<close>. A namespace that \<open>parse_known_args\<close> returns has both required
  destinations set (lemma \<open>parse_known_args_required\<close> below), so the first \<open>case\<close>
  never takes its last branch; it stands for the \<open>AttributeError\<close> that
  \<open>knownargs.metaval.lower()\<close> would raise on \<open>None\<close>.
\<close>

definition cmdline ::
  "env \<Rightarrow> tool \<Rightarrow> string \<Rightarrow> string list \<Rightarrow> string list \<Rightarrow> string option \<Rightarrow> rlimits \<Rightarrow> world
     \<Rightarrow> (error + string list) \<times> tool \<times> world" where
  "cmdline env self executable options tasks propertyfile rlimits w =
     (case parse_known_args options of
        Inl e \<Rightarrow> (Inl e, self, w)
      | Inr (knownargs, options1) \<Rightarrow>
          (case (metaval knownargs, metavalWitness knownargs) of
             (Some m, Some witnessName) \<Rightarrow>
               (let vname = lower m;
                    additionalPathArgument =
                      (case metavalAdditionalPATH knownargs of
                         Some p \<Rightarrow> if p \<noteq> [] then [''--additionalPATH'', p] else []
                       | None \<Rightarrow> []);
                    witnessTypeArgument =
                      (case metavalWitnessType knownargs of
                         Some ty \<Rightarrow> if ty \<noteq> [] then [''--witnessType'', ty] else []
                       | None \<Rightarrow> [])
                in (case resolve_wrapped_tool env self vname w of
                      (Inl e, self1, w1) \<Rightarrow> (Inl e, self1, w1)
                    | (Inr _, self1, w1) \<Rightarrow>
                        (case wrappedTool self1 of
                           Some t \<Rightarrow>
                             (case in_tool_directory env self1
                                     (wrapped_options t options1 propertyfile rlimits) w1 of
                                (Inl e, w2) \<Rightarrow> (Inl e, self1, w2)
                              | (Inr wrappedOptions, w2) \<Rightarrow>
                                  (case map_of TOOL_TO_PATH_MAP vname of
                                     None \<Rightarrow> (Inl (KeyError vname), self1, w2)
                                   | Some d \<Rightarrow>
                                       (Inr ([executable, ''--verifier'', d,
                                              ''--witness'', witnessName]
                                             @ additionalPathArgument
                                             @ witnessTypeArgument
                                             @ tasks
                                             @ [''--'']
                                             @ wrappedOptions),
                                        self1, w2)))
                         | None \<Rightarrow>
                             (Inl (SysExit ''ERROR: Could not find wrapped tool''), self1, w1))))
           | _ \<Rightarrow> (Inl (AttributeError ''lower''), self, w)))"

subsection \<open>A run of the Runner\<close>

text \<open>
  The Runner calls \<open>cmdline\<close> and \<open>determine_result\<close> on one instance, any number of
  times; what an earlier call leaves in the instance and the process is what the next
  one finds, whether the earlier call returned or raised.
\<close>

datatype request =
    CallCmdline string "string list" "string list" "string option" rlimits
  | CallDetermineResult int int "string list" bool

datatype response = Argv "string list" | Verdict string | Raised error

fun serve :: "env \<Rightarrow> request \<Rightarrow> tool \<Rightarrow> world \<Rightarrow> response \<times> tool \<times> world" where
  "serve env (CallCmdline executable options tasks propertyfile rlimits) self w =
     (case cmdline env self executable options tasks propertyfile rlimits w of
        (Inl e, self1, w1) \<Rightarrow> (Raised e, self1, w1)
      | (Inr argv, self1, w1) \<Rightarrow> (Argv argv, self1, w1))"
| "serve env (CallDetermineResult returncode returnsignal output isTimeout) self w =
     (case determine_result env self returncode returnsignal output isTimeout w of
        (Inl e, w1) \<Rightarrow> (Raised e, self, w1)
      | (Inr v, w1) \<Rightarrow> (Verdict v, self, w1))"

fun run :: "env \<Rightarrow> request list \<Rightarrow> tool \<Rightarrow> world \<Rightarrow> response list \<times> tool \<times> world" where
  "run env [] self w = ([], self, w)"
| "run env (r # rs) self w =
     (case serve env r self w of
        (resp, self1, w1) \<Rightarrow>
          (case run env rs self1 w1 of
             (resps, self2, w2) \<Rightarrow> (resp # resps, self2, w2)))"

subsection \<open>An installation to run the adapter on\<close>

text \<open>
  Two wrapped modules, an installation with the directory of one of them, and a process
  started in \<open>/home/u\<close>. \<open>benchexec.tools.esbmc\<close> is a key of the map,
  \<open>benchexec.tools.cbmc\<close> is a module that loads but has no entry in the map, and no
  other module loads.
\<close>

definition esbmc_tool :: subtool where
  "esbmc_tool =
     \<lparr>wrapped_executable = (\<lambda>d. Inr ''bin/esbmc''),
      wrapped_cmdline =
        (\<lambda>d exe options tasks pf rl. Inr ([exe] @ options @ [''--property-file'', pf] @ tasks)),
      wrapped_determine_result =
        (\<lambda>d rc sig out to. Inr (if rc = 0 then ''true'' else ''unknown''))\<rparr>"

definition cbmc_tool :: subtool where
  "cbmc_tool =
     \<lparr>wrapped_executable = (\<lambda>d. Inr ''cbmc''),
      wrapped_cmdline = (\<lambda>d exe options tasks pf rl. Inr ([exe] @ options @ tasks)),
      wrapped_determine_result = (\<lambda>d rc sig out to. Inr ''true'')\<rparr>"

definition demo_env :: env where
  "demo_env =
     \<lparr>chdir_target = (\<lambda>p. if p = ''/home/u'' \<or> p = ''/home/u/esbmc'' then Some p else None),
      modules =
        (\<lambda>m. if m = ''benchexec.tools.esbmc'' then Some esbmc_tool
             else if m = ''benchexec.tools.cbmc'' then Some cbmc_tool
             else None)\<rparr>"

definition demo_world :: world where
  "demo_world = \<lparr>cwd = ''/home/u'', trace = []\<rparr>"

definition esbmc_resolved :: tool where
  "esbmc_resolved = \<lparr>verifierName = Some ''esbmc'', wrappedTool = Some esbmc_tool\<rparr>"

definition cbmc_resolved :: tool where
  "cbmc_resolved = \<lparr>verifierName = Some ''cbmc'', wrappedTool = Some cbmc_tool\<rparr>"

definition demo_options :: "string list" where
  "demo_options = [''--metaval'', ''ESBMC'', ''--metavalWitness'', ''w.graphml'']"

definition nosuch_options :: "string list" where
  "nosuch_options = [''--metaval'', ''nosuchtool'', ''--metavalWitness'', ''w.graphml'']"

definition cbmc_options :: "string list" where
  "cbmc_options = [''--metaval'', ''cbmc'', ''--metavalWitness'', ''w.graphml'']"

subsection \<open>Vocabulary for statements about runs\<close>







definition empty_path_options :: "string list" where
  "empty_path_options =
     [''--metaval'', ''ESBMC'', ''--metavalWitness'', ''w.graphml'',
      ''--metavalAdditionalPATH'', '''']"

subsection \<open>The argument vector as the specification words it\<close>

text \<open>
  The specification's sentence about the result of \<open>cmdline\<close>, taken literally: the two
  optional pairs are there when the option was given, that is, when the parser stored
  a value for it.
\<close>

definition spec_argv ::
  "string \<Rightarrow> string \<Rightarrow> string \<Rightarrow> string option \<Rightarrow> string option \<Rightarrow> string list
     \<Rightarrow> string list \<Rightarrow> string list" where
  "spec_argv executable dir witness additional_path witness_type tasks sub_argv =
     [executable, ''--verifier'', dir, ''--witness'', witness]
     @ (case additional_path of Some p \<Rightarrow> [''--additionalPATH'', p] | None \<Rightarrow> [])
     @ (case witness_type of Some ty \<Rightarrow> [''--witnessType'', ty] | None \<Rightarrow> [])
     @ tasks @ [''--''] @ sub_argv"

section \<open>Properties\<close>

subsection \<open>Evaluation on the installation\<close>

lemmas path_defs = relpath_def join_def abspath_def normpath_def isabs_def startswith_def
  endswith_def initial_slashes_def norm_step_def

lemmas parse_defs = parse_known_args_def parse_optional_def option_string_actions_def
  empty_namespace_def get_option_tuples_def partition_eq_def startswith_def
  negative_number_matcher_def negative_number_body_def is_digit_def

lemma esbmc_fields:
  "wrapped_executable esbmc_tool d = Inr ''bin/esbmc''"
  "wrapped_cmdline esbmc_tool d exe options tasks pf rl =
     Inr ([exe] @ options @ [''--property-file'', pf] @ tasks)"
  "wrapped_determine_result esbmc_tool d rc sig out to =
     Inr (if rc = 0 then ''true'' else ''unknown'')"
  by (simp_all add: esbmc_tool_def)

lemma cbmc_fields:
  "wrapped_executable cbmc_tool d = Inr ''cbmc''"
  "wrapped_cmdline cbmc_tool d exe options tasks pf rl = Inr ([exe] @ options @ tasks)"
  "wrapped_determine_result cbmc_tool d rc sig out to = Inr ''true''"
  by (simp_all add: cbmc_tool_def)

lemma demo_env_fields:
  "chdir_target demo_env ''/home/u'' = Some ''/home/u''"
  "chdir_target demo_env ''/home/u/esbmc'' = Some ''/home/u/esbmc''"
  "modules demo_env ''benchexec.tools.esbmc'' = Some esbmc_tool"
  "modules demo_env ''benchexec.tools.cbmc'' = Some cbmc_tool"
  "modules demo_env ''benchexec.tools.nosuchtool'' = None"
  by (simp_all add: demo_env_def)

lemma parse_demo_options:
  "parse_known_args demo_options =
     Inr (\<lparr>metavalWitness = Some ''w.graphml'', metaval = Some ''ESBMC'',
           metavalAdditionalPATH = None, metavalWitnessType = None\<rparr>, [])"
  by (simp add: demo_options_def parse_defs)

lemma lower_ESBMC: "lower ''ESBMC'' = ''esbmc''"
  by (simp add: lower_def lower_char_def)

lemma relpath_demo:
  "relpath ''/home/u/esbmc'' (join ''/home/u'' ''output/ARG.c'') = Inr ''../output/ARG.c''"
  "relpath ''/home/u/esbmc'' (join ''/home/u'' ''prop.prp'') = Inr ''../prop.prp''"
  by (simp_all add: path_defs)

lemma join_demo: "join ''/home/u'' ''esbmc'' = ''/home/u/esbmc''"
  by (simp add: path_defs)

text \<open>The example of the specification, with the trace it leaves.\<close>

lemma cmdline_demo:
  "cmdline demo_env init ''metaval.sh'' demo_options [''t.c''] (Some ''prop.prp'') [] demo_world =
   (Inr [''metaval.sh'', ''--verifier'', ''esbmc'', ''--witness'', ''w.graphml'', ''t.c'', ''--'',
         ''bin/esbmc'', ''--property-file'', ''../prop.prp'', ''../output/ARG.c''],
    esbmc_resolved,
    \<lparr>cwd = ''/home/u'',
     trace = [Import ''benchexec.tools.esbmc'', Chdir ''/home/u/esbmc'',
              WrappedExecutable ''/home/u/esbmc'',
              WrappedCmdline ''/home/u/esbmc'' ''bin/esbmc'' [] [''../output/ARG.c'']
                ''../prop.prp'' [],
              Chdir ''/home/u'']\<rparr>)"
  by (simp add: cmdline_def parse_demo_options lower_ESBMC resolve_wrapped_tool_def init_def
      demo_env_fields demo_world_def record_event_def in_tool_directory_def TOOL_TO_PATH_MAP_def
      chdir_def join_demo wrapped_options_def esbmc_fields Let_def relpath_demo
      raised_by_wrapped_def esbmc_resolved_def)

subsection \<open>The parser sets the required destinations\<close>

lemma consume_seen:
  "consume cs ns seen extras = Inr (ns', seen', extras') \<Longrightarrow>
   (Metaval \<in> set seen \<longrightarrow> metaval ns \<noteq> None) \<Longrightarrow>
   (MetavalWitness \<in> set seen \<longrightarrow> metavalWitness ns \<noteq> None) \<Longrightarrow>
   (Metaval \<in> set seen' \<longrightarrow> metaval ns' \<noteq> None) \<and>
   (MetavalWitness \<in> set seen' \<longrightarrow> metavalWitness ns' \<noteq> None)"
proof (induction cs ns seen extras rule: consume.induct)
  case (2 s a v rest ns seen extras)
  then show ?case by (cases a) auto
next
  case (3 s a v rest ns seen extras)
  then show ?case by (cases a) auto
qed auto

lemma parse_known_args_required:
  assumes "parse_known_args options = Inr (k, rest)"
  shows "metaval k \<noteq> None \<and> metavalWitness k \<noteq> None"
proof -
  from assms obtain cs seen where c: "consume cs empty_namespace [] [] = Inr (k, seen, rest)"
    and s: "MetavalWitness \<in> set seen" "Metaval \<in> set seen"
    by (auto simp: parse_known_args_def split: sum.splits prod.splits if_splits)
  from consume_seen[OF c] s show ?thesis by simp
qed

subsection \<open>The working directory\<close>

lemma in_tool_directory_restores:
  assumes "chdir_target env (cwd w) = Some (cwd w)"
  shows "cwd (snd (in_tool_directory env self body w)) = cwd w"
  using assms
  by (simp add: in_tool_directory_def Let_def chdir_def record_event_def
      split: prod.splits sum.splits)

lemma resolve_cwd:
  "cwd (snd (snd (resolve_wrapped_tool env self v w))) = cwd w"
  by (simp add: resolve_wrapped_tool_def Let_def record_event_def split: option.splits)

lemma cmdline_restores:
  assumes "chdir_target env (cwd w) = Some (cwd w)"
  shows "cwd (snd (snd (cmdline env self executable options tasks propertyfile rlimits w))) =
         cwd w"
proof (cases "parse_known_args options")
  case (Inl e)
  then show ?thesis by (simp add: cmdline_def)
next
  case (Inr p)
  obtain k rest where p: "p = (k, rest)" by (cases p)
  show ?thesis
  proof (cases "metaval k")
    case None
    with Inr p show ?thesis by (simp add: cmdline_def)
  next
    case (Some m)
    show ?thesis
    proof (cases "metavalWitness k")
      case None
      with Inr p Some show ?thesis by (simp add: cmdline_def)
    next
      case wn: (Some wn)
      obtain r self1 w1 where res: "resolve_wrapped_tool env self (lower m) w = (r, self1, w1)"
        by (cases "resolve_wrapped_tool env self (lower m) w") auto
      have c1: "cwd w1 = cwd w"
        using resolve_cwd[of env self "lower m" w] res by simp
      show ?thesis
      proof (cases r)
        case (Inl e)
        with Inr p Some wn res c1 show ?thesis by (simp add: cmdline_def Let_def)
      next
        case r: (Inr u)
        show ?thesis
        proof (cases "wrappedTool self1")
          case None
          with Inr p Some wn res c1 r show ?thesis by (simp add: cmdline_def Let_def)
        next
          case t: (Some t)
          have "cwd (snd (in_tool_directory env self1
                            (wrapped_options t rest propertyfile rlimits) w1)) = cwd w"
            using in_tool_directory_restores[of env w1] assms c1 by simp
          with Inr p Some wn res r t show ?thesis
            by (auto simp: cmdline_def Let_def split: prod.splits sum.splits option.splits)
        qed
      qed
    qed
  qed
qed

lemma determine_result_restores:
  assumes "chdir_target env (cwd w) = Some (cwd w)"
  shows "cwd (snd (determine_result env self returncode returnsignal output isTimeout w)) =
         cwd w"
  using assms in_tool_directory_restores[of env w]
  by (auto simp: determine_result_def split: option.splits)

text \<open>
  Claim C3. When the directory the process is in exists (changing into it succeeds and
  leaves the process there), the working directory after a \<open>cmdline\<close> call and after a
  \<open>determine_result\<close> call is the working directory before it, whatever the call
  returns or raises: a usage exit, a failed import, the mixed-tools exit, a missing key,
  a failed change into the tool's directory, an error of the wrapped module or a normal
  return.
\<close>

theorem working_directory_restored:
  assumes "chdir_target env (cwd w) = Some (cwd w)"
  shows "cwd (snd (snd (cmdline env self executable options tasks propertyfile rlimits w))) =
           cwd w
         \<and> cwd (snd (determine_result env self returncode returnsignal output isTimeout w)) =
           cwd w"
  using assms cmdline_restores determine_result_restores by blast

theorem working_directory_restored_witness:
  "chdir_target demo_env (cwd demo_world) = Some (cwd demo_world)
   \<and> cwd (snd (snd (cmdline demo_env esbmc_resolved ''metaval.sh'' demo_options [''t.c'']
                      (Some ''prop.prp'') [] demo_world))) = ''/home/u''
   \<and> cwd (snd (determine_result demo_env esbmc_resolved 0 0 [] False demo_world)) = ''/home/u''"
proof -
  have h: "chdir_target demo_env (cwd demo_world) = Some (cwd demo_world)"
    by (simp add: demo_env_def demo_world_def)
  show ?thesis
    using h working_directory_restored [OF h, of esbmc_resolved "''metaval.sh''" demo_options
        "[''t.c'']" "Some ''prop.prp''" "[]" 0 0 "[]" False]
    by (simp add: demo_world_def)
qed

subsection \<open>The parser exits in one way\<close>

lemma parse_optional_error: "parse_optional s = Inl e \<Longrightarrow> e = ArgparseExit"
  by (auto simp: parse_optional_def split: if_splits option.splits prod.splits list.splits)

lemma classify_error: "classify ss = Inl e \<Longrightarrow> e = ArgparseExit"
  by (induction ss) (auto split: if_splits sum.splits dest: parse_optional_error)

lemma consume_error: "consume cs ns seen extras = Inl e \<Longrightarrow> e = ArgparseExit"
  by (induction cs ns seen extras rule: consume.induct) auto

lemma parse_known_args_error: "parse_known_args options = Inl e \<Longrightarrow> e = ArgparseExit"
  by (auto simp: parse_known_args_def split: sum.splits prod.splits if_splits
      dest: classify_error consume_error)

subsection \<open>The shape of cmdline after a successful parse\<close>

lemma cmdline_parsed:
  assumes "parse_known_args options = Inr (k, rest)"
    and "metaval k = Some m" and "metavalWitness k = Some wn"
  shows "cmdline env self executable options tasks propertyfile rlimits w =
     (case resolve_wrapped_tool env self (lower m) w of
        (Inl e, self1, w1) \<Rightarrow> (Inl e, self1, w1)
      | (Inr _, self1, w1) \<Rightarrow>
          (case wrappedTool self1 of
             Some t \<Rightarrow>
               (case in_tool_directory env self1
                       (wrapped_options t rest propertyfile rlimits) w1 of
                  (Inl e, w2) \<Rightarrow> (Inl e, self1, w2)
                | (Inr wrappedOptions, w2) \<Rightarrow>
                    (case map_of TOOL_TO_PATH_MAP (lower m) of
                       None \<Rightarrow> (Inl (KeyError (lower m)), self1, w2)
                     | Some d \<Rightarrow>
                         (Inr ([executable, ''--verifier'', d, ''--witness'', wn]
                               @ (case metavalAdditionalPATH k of
                                    Some p \<Rightarrow> if p \<noteq> [] then [''--additionalPATH'', p] else []
                                  | None \<Rightarrow> [])
                               @ (case metavalWitnessType k of
                                    Some ty \<Rightarrow> if ty \<noteq> [] then [''--witnessType'', ty] else []
                                  | None \<Rightarrow> [])
                               @ tasks @ [''--''] @ wrappedOptions),
                          self1, w2)))
           | None \<Rightarrow> (Inl (SysExit ''ERROR: Could not find wrapped tool''), self1, w1)))"
  using assms by (simp add: cmdline_def Let_def)

lemma cmdline_unparsed:
  "parse_known_args options = Inl e \<Longrightarrow>
   cmdline env self executable options tasks propertyfile rlimits w = (Inl e, self, w)"
  by (simp add: cmdline_def)

lemma resolve_fresh_loadable:
  assumes "wrappedTool self = None" and "modules env (''benchexec.tools.'' @ v) = Some t"
  shows "resolve_wrapped_tool env self v w =
     (Inr (), self\<lparr>verifierName := Some v, wrappedTool := Some t\<rparr>,
      record_event (Import (''benchexec.tools.'' @ v)) w)"
  using assms by (simp add: resolve_wrapped_tool_def Let_def)

lemma resolve_fresh_unloadable:
  assumes "wrappedTool self = None" and "modules env (''benchexec.tools.'' @ v) = None"
  shows "resolve_wrapped_tool env self v w =
     (Inl (ImportError (''benchexec.tools.'' @ v)), self\<lparr>verifierName := Some v\<rparr>,
      record_event (Import (''benchexec.tools.'' @ v)) w)"
  using assms by (simp add: resolve_wrapped_tool_def Let_def)

lemma resolve_resolved:
  assumes "wrappedTool self = Some t" and "verifierName self = Some u"
  shows "resolve_wrapped_tool env self v w =
     (if v = u then (Inr (), self, w)
      else (Inl (SysExit ''metaval is called with mixed wrapped tools''), self, w))"
  using assms by (simp add: resolve_wrapped_tool_def)

lemma resolve_keeps_resolved:
  assumes "wrappedTool self = Some t"
  shows "fst (snd (resolve_wrapped_tool env self v w)) = self"
    and "snd (snd (resolve_wrapped_tool env self v w)) = w"
  using assms by (simp_all add: resolve_wrapped_tool_def split: option.splits)

lemma resolve_ok_sets:
  assumes "fst (resolve_wrapped_tool env self v w) = Inr ()"
  shows "wrappedTool (fst (snd (resolve_wrapped_tool env self v w))) \<noteq> None"
  using assms
  by (auto simp: resolve_wrapped_tool_def Let_def split: option.splits if_splits)

lemma resolve_not_could_not_find:
  "fst (resolve_wrapped_tool env self v w) \<noteq> Inl (SysExit ''ERROR: Could not find wrapped tool'')"
  by (auto simp: resolve_wrapped_tool_def Let_def split: option.splits if_splits)

lemma raised_by_wrapped_not_exit: "raised_by_wrapped r \<noteq> Inl (SysExit s)"
  by (cases r) (simp_all add: raised_by_wrapped_def)

lemma relpath_not_exit: "relpath c p \<noteq> Inl (SysExit s)"
  by (simp add: relpath_def Let_def)

lemma wrapped_options_not_exit:
  "fst (wrapped_options t options propertyfile rlimits oldcwd w) \<noteq> Inl (SysExit s)"
  using raised_by_wrapped_not_exit relpath_not_exit
  by (auto simp: wrapped_options_def Let_def split: sum.splits option.splits)

lemma in_tool_directory_not_exit:
  assumes "\<And>oldcwd w1. fst (body oldcwd w1) \<noteq> Inl (SysExit s)"
  shows "fst (in_tool_directory env self body w) \<noteq> Inl (SysExit s)"
proof -
  have a: "fst (chdir env p w0) \<noteq> Inl (SysExit s)" for p w0
    by (simp add: chdir_def split: option.splits)
  show ?thesis
    using assms a
    apply (simp add: in_tool_directory_def Let_def split: option.splits prod.splits sum.splits)
    apply (auto simp: chdir_def split: option.splits)
    done
qed

lemma cmdline_not_could_not_find:
  "fst (cmdline env self executable options tasks propertyfile rlimits w) \<noteq>
     Inl (SysExit ''ERROR: Could not find wrapped tool'')"
proof (cases "parse_known_args options")
  case (Inl e)
  then have "e = ArgparseExit"
    by (auto simp: parse_known_args_def split: sum.splits prod.splits if_splits
        dest: classify_error consume_error)
  with Inl show ?thesis by (simp add: cmdline_unparsed)
next
  case (Inr p)
  obtain k rest where p: "p = (k, rest)" by (cases p)
  from parse_known_args_required[of options k rest] Inr p
  obtain m wn where m: "metaval k = Some m" and wn: "metavalWitness k = Some wn" by auto
  obtain r self1 w1 where res: "resolve_wrapped_tool env self (lower m) w = (r, self1, w1)"
    by (cases "resolve_wrapped_tool env self (lower m) w") auto
  show ?thesis
  proof (cases r)
    case (Inl e)
    with resolve_not_could_not_find[of env self "lower m" w] res
    have "e \<noteq> SysExit ''ERROR: Could not find wrapped tool''" by simp
    with Inl res Inr p m wn show ?thesis by (simp add: cmdline_parsed)
  next
    case r: (Inr u)
    with resolve_ok_sets[of env self "lower m" w] res
    obtain t where t: "wrappedTool self1 = Some t" by auto
    have "fst (in_tool_directory env self1 (wrapped_options t rest propertyfile rlimits) w1) \<noteq>
            Inl (SysExit ''ERROR: Could not find wrapped tool'')"
      by (rule in_tool_directory_not_exit) (rule wrapped_options_not_exit)
    with r res Inr p m wn t show ?thesis
      by (auto simp: cmdline_parsed split: prod.splits sum.splits option.splits)
  qed
qed

text \<open>
  Claim C9. When the block under the lock completes without raising, the attribute
  \<open>wrappedTool\<close> is set in the instance it leaves; so the \<open>else\<close> branch of the check
  that follows is never taken: no \<open>cmdline\<close> call ends in the exit with the message
  \<open>ERROR: Could not find wrapped tool\<close>. (Errors raised inside the wrapped module are
  kept apart from the adapter's own exits by their constructor.)
\<close>

theorem could_not_find_wrapped_tool_unreachable:
  "(fst (resolve_wrapped_tool env self vname w) = Inr () \<longrightarrow>
      wrappedTool (fst (snd (resolve_wrapped_tool env self vname w))) \<noteq> None)
   \<and> fst (cmdline env self executable options tasks propertyfile rlimits w) \<noteq>
       Inl (SysExit ''ERROR: Could not find wrapped tool'')"
  using resolve_ok_sets cmdline_not_could_not_find by blast

theorem could_not_find_wrapped_tool_unreachable_witness:
  "fst (resolve_wrapped_tool demo_env init ''esbmc'' demo_world) = Inr ()
   \<and> wrappedTool (fst (snd (resolve_wrapped_tool demo_env init ''esbmc'' demo_world))) =
       Some esbmc_tool
   \<and> fst (cmdline demo_env init ''metaval.sh'' demo_options [''t.c''] (Some ''prop.prp'') []
            demo_world) \<noteq> Inl (SysExit ''ERROR: Could not find wrapped tool'')"
  using could_not_find_wrapped_tool_unreachable [of demo_env init "''esbmc''" demo_world
      "''metaval.sh''" demo_options "[''t.c'']" "Some ''prop.prp''" "[]"]
  by (simp add: resolve_wrapped_tool_def init_def demo_env_fields Let_def)

subsection \<open>A resolved instance stays as it is\<close>

lemma cmdline_keeps_resolved:
  assumes "wrappedTool self = Some t"
  shows "fst (snd (cmdline env self executable options tasks propertyfile rlimits w)) = self"
proof (cases "parse_known_args options")
  case (Inl e)
  then show ?thesis by (simp add: cmdline_unparsed)
next
  case (Inr p)
  obtain k rest where p: "p = (k, rest)" by (cases p)
  from parse_known_args_required[of options k rest] Inr p
  obtain m wn where m: "metaval k = Some m" and wn: "metavalWitness k = Some wn" by auto
  obtain r self1 w1 where res: "resolve_wrapped_tool env self (lower m) w = (r, self1, w1)"
    by (cases "resolve_wrapped_tool env self (lower m) w") auto
  with resolve_keeps_resolved(1)[OF assms, of env "lower m" w] have "self1 = self" by simp
  with res Inr p m wn show ?thesis
    by (auto simp: cmdline_parsed split: prod.splits sum.splits option.splits)
qed

lemma serve_keeps_resolved:
  assumes "wrappedTool self = Some t"
  shows "fst (snd (serve env r self w)) = self"
proof (cases r)
  case (CallCmdline executable options tasks propertyfile rlimits)
  with cmdline_keeps_resolved[OF assms, of env executable options tasks propertyfile rlimits w]
  show ?thesis by (auto split: prod.splits sum.splits)
next
  case (CallDetermineResult returncode returnsignal out isTimeout)
  then show ?thesis by (auto split: prod.splits sum.splits)
qed

lemma run_keeps_resolved:
  assumes "wrappedTool self = Some t"
  shows "fst (snd (run env rs self w)) = self"
proof (induction rs arbitrary: w)
  case Nil
  show ?case by simp
next
  case (Cons r rs)
  obtain resp self1 w1 where s: "serve env r self w = (resp, self1, w1)"
    by (cases "serve env r self w") auto
  with serve_keeps_resolved[OF assms, of env r w] have "self1 = self" by simp
  with s Cons.IH[of w1] show ?case by (auto split: prod.splits)
qed

lemma cmdline_mixed:
  assumes "wrappedTool self = Some t" and "verifierName self = Some v"
    and "parse_known_args options = Inr (k, rest)" and "metaval k = Some m"
    and "lower m \<noteq> v"
  shows "cmdline env self executable options tasks propertyfile rlimits w =
     (Inl (SysExit ''metaval is called with mixed wrapped tools''), self, w)"
proof -
  from parse_known_args_required[OF assms(3)] obtain wn where "metavalWitness k = Some wn"
    by auto
  with assms show ?thesis by (simp add: cmdline_parsed resolve_resolved)
qed

text \<open>
  Claim C2, as amended. Once a wrapped module has been resolved (the attribute
  \<open>wrappedTool\<close> is set, together with the identifier), no later sequence of \<open>cmdline\<close>
  and \<open>determine_result\<close> calls changes the identifier or the wrapped module, and a
  \<open>cmdline\<close> call after it whose lowercased \<open>--metaval\<close> identifier differs from the
  recorded one ends in the mixed-wrapped-tools exit, with the instance and the process
  exactly as they were: no import, no change of directory, no call into the wrapped
  module.
\<close>

theorem resolved_identifier_never_changes:
  assumes "wrappedTool self = Some t" and "verifierName self = Some v"
    and "run env reqs self w = (resps, self1, w1)"
    and "parse_known_args options = Inr (k, rest)" and "metaval k = Some m"
    and "lower m \<noteq> v"
  shows "self1 = self
         \<and> cmdline env self1 executable options tasks propertyfile rlimits w1 =
             (Inl (SysExit ''metaval is called with mixed wrapped tools''), self, w1)"
proof -
  from run_keeps_resolved[OF assms(1), of env reqs w] assms(3) have s: "self1 = self" by simp
  with cmdline_mixed[OF assms(1,2,4,5,6)] show ?thesis by simp
qed

subsection \<open>More evaluation on the installation\<close>

lemma parse_cbmc_options:
  "parse_known_args cbmc_options =
     Inr (\<lparr>metavalWitness = Some ''w.graphml'', metaval = Some ''cbmc'',
           metavalAdditionalPATH = None, metavalWitnessType = None\<rparr>, [])"
  by (simp add: cbmc_options_def parse_defs)

lemma parse_nosuch_options:
  "parse_known_args nosuch_options =
     Inr (\<lparr>metavalWitness = Some ''w.graphml'', metaval = Some ''nosuchtool'',
           metavalAdditionalPATH = None, metavalWitnessType = None\<rparr>, [])"
  by (simp add: nosuch_options_def parse_defs)

lemma lower_demo:
  "lower ''cbmc'' = ''cbmc''" "lower ''nosuchtool'' = ''nosuchtool''"
  by (simp_all add: lower_def lower_char_def)

lemma cmdline_nosuch:
  assumes "wrappedTool self = None"
  shows "cmdline demo_env self executable nosuch_options tasks propertyfile rlimits w =
     (Inl (ImportError ''benchexec.tools.nosuchtool''),
      self\<lparr>verifierName := Some ''nosuchtool''\<rparr>,
      w\<lparr>trace := trace w @ [Import ''benchexec.tools.nosuchtool'']\<rparr>)"
  using assms
  by (simp add: cmdline_parsed[OF parse_nosuch_options] lower_demo resolve_fresh_unloadable
      demo_env_fields record_event_def)

lemma run_demo_resolved:
  "run demo_env [CallDetermineResult 0 0 [] False,
                 CallCmdline ''metaval.sh'' demo_options [''t.c''] (Some ''prop.prp'') []]
       esbmc_resolved demo_world =
   ([Verdict ''true'',
     Argv [''metaval.sh'', ''--verifier'', ''esbmc'', ''--witness'', ''w.graphml'', ''t.c'', ''--'',
          ''bin/esbmc'', ''--property-file'', ''../prop.prp'', ''../output/ARG.c'']],
    esbmc_resolved,
    \<lparr>cwd = ''/home/u'',
     trace = [Chdir ''/home/u/esbmc'', WrappedDetermineResult ''/home/u/esbmc'' 0 0 [] False,
              Chdir ''/home/u'', Chdir ''/home/u/esbmc'',
              WrappedExecutable ''/home/u/esbmc'',
              WrappedCmdline ''/home/u/esbmc'' ''bin/esbmc'' [] [''../output/ARG.c'']
                ''../prop.prp'' [],
              Chdir ''/home/u'']\<rparr>)"
  by (simp add: cmdline_def parse_demo_options lower_ESBMC resolve_wrapped_tool_def
      demo_env_fields demo_world_def record_event_def in_tool_directory_def TOOL_TO_PATH_MAP_def
      chdir_def join_demo wrapped_options_def esbmc_fields Let_def relpath_demo
      raised_by_wrapped_def esbmc_resolved_def determine_result_def)

theorem resolved_identifier_never_changes_witness:
  "wrappedTool esbmc_resolved = Some esbmc_tool \<and> verifierName esbmc_resolved = Some ''esbmc''
   \<and> lower ''cbmc'' \<noteq> ''esbmc''
   \<and> fst (snd (run demo_env
                 [CallDetermineResult 0 0 [] False,
                  CallCmdline ''metaval.sh'' demo_options [''t.c''] (Some ''prop.prp'') []]
                 esbmc_resolved demo_world)) = esbmc_resolved
   \<and> fst (cmdline demo_env esbmc_resolved ''metaval.sh'' cbmc_options [''t.c'']
            (Some ''prop.prp'') []
            (snd (snd (run demo_env
                 [CallDetermineResult 0 0 [] False,
                  CallCmdline ''metaval.sh'' demo_options [''t.c''] (Some ''prop.prp'') []]
                 esbmc_resolved demo_world)))) =
       Inl (SysExit ''metaval is called with mixed wrapped tools'')"
proof -
  have a: "wrappedTool esbmc_resolved = Some esbmc_tool"
    and b: "verifierName esbmc_resolved = Some ''esbmc''"
    by (simp_all add: esbmc_resolved_def)
  have c: "lower ''cbmc'' \<noteq> ''esbmc''" by (simp add: lower_demo)
  have d: "metaval \<lparr>metavalWitness = Some ''w.graphml'', metaval = Some ''cbmc'',
           metavalAdditionalPATH = None, metavalWitnessType = None\<rparr> = Some ''cbmc''" by simp
  show ?thesis
    using a b c
      resolved_identifier_never_changes [OF a b run_demo_resolved parse_cbmc_options d c,
        of "''metaval.sh''" "[''t.c'']" "Some ''prop.prp''" "[]"]
    unfolding run_demo_resolved by simp
qed

text \<open>
  Claim C2 as stated fails when the import itself fails: the identifier is assigned
  before the import, so a first call for a module that does not load leaves
  \<open>nosuchtool\<close> recorded without a wrapped module, and a later call for \<open>ESBMC\<close> is not
  refused but replaces the recorded identifier and returns an argument vector.
\<close>

theorem recorded_identifier_replaced_after_failed_import:
  "run demo_env
     [CallCmdline ''metaval.sh'' nosuch_options [''t.c''] (Some ''prop.prp'') []]
     init demo_world =
   ([Raised (ImportError ''benchexec.tools.nosuchtool'')],
    \<lparr>verifierName = Some ''nosuchtool'', wrappedTool = None\<rparr>,
    \<lparr>cwd = ''/home/u'', trace = [Import ''benchexec.tools.nosuchtool'']\<rparr>)
   \<and>
   run demo_env
     [CallCmdline ''metaval.sh'' demo_options [''t.c''] (Some ''prop.prp'') []]
     \<lparr>verifierName = Some ''nosuchtool'', wrappedTool = None\<rparr>
     \<lparr>cwd = ''/home/u'', trace = [Import ''benchexec.tools.nosuchtool'']\<rparr> =
   ([Argv [''metaval.sh'', ''--verifier'', ''esbmc'', ''--witness'', ''w.graphml'', ''t.c'', ''--'',
          ''bin/esbmc'', ''--property-file'', ''../prop.prp'', ''../output/ARG.c'']],
    \<lparr>verifierName = Some ''esbmc'', wrappedTool = Some esbmc_tool\<rparr>,
    \<lparr>cwd = ''/home/u'',
     trace = [Import ''benchexec.tools.nosuchtool'', Import ''benchexec.tools.esbmc'',
              Chdir ''/home/u/esbmc'', WrappedExecutable ''/home/u/esbmc'',
              WrappedCmdline ''/home/u/esbmc'' ''bin/esbmc'' [] [''../output/ARG.c'']
                ''../prop.prp'' [],
              Chdir ''/home/u'']\<rparr>)"
proof
  show "run demo_env
     [CallCmdline ''metaval.sh'' nosuch_options [''t.c''] (Some ''prop.prp'') []]
     init demo_world =
   ([Raised (ImportError ''benchexec.tools.nosuchtool'')],
    \<lparr>verifierName = Some ''nosuchtool'', wrappedTool = None\<rparr>,
    \<lparr>cwd = ''/home/u'', trace = [Import ''benchexec.tools.nosuchtool'']\<rparr>)"
    by (simp add: cmdline_nosuch init_def demo_world_def)
next
  show "run demo_env
     [CallCmdline ''metaval.sh'' demo_options [''t.c''] (Some ''prop.prp'') []]
     \<lparr>verifierName = Some ''nosuchtool'', wrappedTool = None\<rparr>
     \<lparr>cwd = ''/home/u'', trace = [Import ''benchexec.tools.nosuchtool'']\<rparr> =
   ([Argv [''metaval.sh'', ''--verifier'', ''esbmc'', ''--witness'', ''w.graphml'', ''t.c'', ''--'',
          ''bin/esbmc'', ''--property-file'', ''../prop.prp'', ''../output/ARG.c'']],
    \<lparr>verifierName = Some ''esbmc'', wrappedTool = Some esbmc_tool\<rparr>,
    \<lparr>cwd = ''/home/u'',
     trace = [Import ''benchexec.tools.nosuchtool'', Import ''benchexec.tools.esbmc'',
              Chdir ''/home/u/esbmc'', WrappedExecutable ''/home/u/esbmc'',
              WrappedCmdline ''/home/u/esbmc'' ''bin/esbmc'' [] [''../output/ARG.c'']
                ''../prop.prp'' [],
              Chdir ''/home/u'']\<rparr>)"
    by (simp add: cmdline_def parse_demo_options lower_ESBMC resolve_wrapped_tool_def
        demo_env_fields record_event_def in_tool_directory_def TOOL_TO_PATH_MAP_def
        chdir_def join_demo wrapped_options_def esbmc_fields Let_def relpath_demo
        raised_by_wrapped_def)
qed

subsection \<open>A module that does not load\<close>

text \<open>
  Claim C5, evaluated where it fails. On a fresh instance, a \<open>cmdline\<close> call whose
  \<open>--metaval\<close> identifier names no loadable module does not end in an exit of the
  process: the \<open>ImportError\<close> of \<open>__import__\<close> leaves \<open>cmdline\<close> as an exception of the
  caller, after the identifier has been recorded.
\<close>

theorem unloadable_module_raises_import_error:
  "cmdline demo_env init ''metaval.sh'' nosuch_options [''t.c''] (Some ''prop.prp'') []
     demo_world =
   (Inl (ImportError ''benchexec.tools.nosuchtool''),
    \<lparr>verifierName = Some ''nosuchtool'', wrappedTool = None\<rparr>,
    \<lparr>cwd = ''/home/u'', trace = [Import ''benchexec.tools.nosuchtool'']\<rparr>)"
  by (simp add: cmdline_nosuch init_def demo_world_def)

subsection \<open>A property file that is None\<close>

lemma wrapped_options_None:
  "\<exists>e. fst (wrapped_options t options None rlimits oldcwd w) = Inl e"
  by (auto simp: wrapped_options_def Let_def split: sum.splits)

lemma finally_result:
  "fst (case chdir env p w1 of
          (Inl e, w2) \<Rightarrow> (Inl e, w2)
        | (Inr u, w2) \<Rightarrow> (r, w2)) =
   (case chdir_target env p of None \<Rightarrow> Inl (OSError p) | Some d \<Rightarrow> r)"
  by (simp add: chdir_def split: option.splits)

lemma in_tool_directory_fails:
  assumes "\<And>oldcwd w1. \<exists>e. fst (body oldcwd w1) = Inl e"
  shows "\<exists>e. fst (in_tool_directory env self body w) = Inl e"
proof (cases "verifierName self")
  case None
  then show ?thesis
      by (simp add: in_tool_directory_def Let_def finally_result split: option.splits)
next
  case v: (Some v)
  show ?thesis
  proof (cases "map_of TOOL_TO_PATH_MAP v")
    case None
    with v show ?thesis
      by (simp add: in_tool_directory_def Let_def finally_result split: option.splits)
  next
    case d: (Some d)
    obtain r1 w1 where c: "chdir env (join (cwd w) d) w = (r1, w1)"
      by (cases "chdir env (join (cwd w) d) w") auto
    show ?thesis
    proof (cases r1)
      case (Inl e)
      with v d c show ?thesis
      by (simp add: in_tool_directory_def Let_def finally_result split: option.splits)
    next
      case (Inr u)
      obtain r2 w2 where b: "body (cwd w) w1 = (r2, w2)"
        by (cases "body (cwd w) w1") auto
      with assms[of "cwd w" w1] obtain e where "r2 = Inl e" by auto
      with v d c Inr b show ?thesis
      by (simp add: in_tool_directory_def Let_def finally_result split: option.splits)
    qed
  qed
qed

lemma cmdline_None_never_returns:
  "\<exists>e. fst (cmdline env self executable options tasks None rlimits w) = Inl e"
proof (cases "parse_known_args options")
  case (Inl e)
  then show ?thesis by (simp add: cmdline_unparsed)
next
  case (Inr p)
  obtain k rest where p: "p = (k, rest)" by (cases p)
  from parse_known_args_required[of options k rest] Inr p
  obtain m wn where m: "metaval k = Some m" and wn: "metavalWitness k = Some wn" by auto
  obtain r self1 w1 where res: "resolve_wrapped_tool env self (lower m) w = (r, self1, w1)"
    by (cases "resolve_wrapped_tool env self (lower m) w") auto
  show ?thesis
  proof (cases r)
    case (Inl e)
    with res Inr p m wn show ?thesis by (simp add: cmdline_parsed)
  next
    case r: (Inr u)
    show ?thesis
    proof (cases "wrappedTool self1")
      case None
      with r res Inr p m wn show ?thesis by (simp add: cmdline_parsed)
    next
      case (Some t)
      have "\<exists>e. fst (in_tool_directory env self1 (wrapped_options t rest None rlimits) w1) = Inl e"
        by (rule in_tool_directory_fails) (rule wrapped_options_None)
      with Some r res Inr p m wn show ?thesis
        by (auto simp: cmdline_parsed split: prod.splits sum.splits option.splits)
    qed
  qed
qed

text \<open>
  Claim C7, evaluated where it fails. With the required options present and the
  property file left at its default \<open>None\<close>, \<open>cmdline\<close> resolves the wrapped module,
  changes into its directory, calls its \<open>executable()\<close> and then raises the
  \<open>TypeError\<close> of \<open>os.path.join(oldcwd, None)\<close>; it returns no argument vector. (By
  \<open>cmdline_None_never_returns\<close> no call with \<open>None\<close> returns one.)
\<close>

theorem propertyfile_None_raises_type_error:
  "cmdline demo_env init ''metaval.sh'' demo_options [''t.c''] None [] demo_world =
   (Inl TypeError, esbmc_resolved,
    \<lparr>cwd = ''/home/u'',
     trace = [Import ''benchexec.tools.esbmc'', Chdir ''/home/u/esbmc'',
              WrappedExecutable ''/home/u/esbmc'', Chdir ''/home/u'']\<rparr>)"
  by (simp add: cmdline_def parse_demo_options lower_ESBMC resolve_wrapped_tool_def init_def
      demo_env_fields demo_world_def record_event_def in_tool_directory_def TOOL_TO_PATH_MAP_def
      chdir_def join_demo wrapped_options_def esbmc_fields Let_def relpath_demo
      esbmc_resolved_def)

subsection \<open>Entering and leaving the tool's directory\<close>

lemma world_update:
  "(w :: world)\<lparr>trace := t, cwd := c\<rparr> = \<lparr>cwd = c, trace = t\<rparr>"
  by (cases w) simp

lemma in_tool_directory_missing_key:
  assumes "verifierName self = Some v" and "map_of TOOL_TO_PATH_MAP v = None"
    and "chdir_target env (cwd w) = Some (cwd w)"
  shows "in_tool_directory env self body w =
           (Inl (KeyError v), \<lparr>cwd = cwd w, trace = trace w @ [Chdir (cwd w)]\<rparr>)"
  using assms by (simp add: in_tool_directory_def Let_def chdir_def record_event_def)

lemma in_tool_directory_enters:
  assumes "verifierName self = Some v" and "map_of TOOL_TO_PATH_MAP v = Some d"
    and "chdir_target env (join (cwd w) d) = Some td"
    and "chdir_target env (cwd w) = Some (cwd w)"
    and "body (cwd w) \<lparr>cwd = td, trace = trace w @ [Chdir (join (cwd w) d)]\<rparr> = (r, w1)"
  shows "in_tool_directory env self body w =
           (r, \<lparr>cwd = cwd w, trace = trace w1 @ [Chdir (cwd w)]\<rparr>)"
  using assms
  by (simp add: in_tool_directory_def Let_def chdir_def record_event_def world_update)

text \<open>
  Claim C4, as amended. On an instance without a resolved wrapped module
  \<open>determine_result\<close> returns \<open>METAVAL ERROR\<close> and leaves the process untouched (no
  \<open>os.chdir\<close>, no call). On an instance with one, whose identifier is a key of the map and
  whose directory can be entered, it returns what the wrapped \<open>determine_result\<close> returns
  (or raises what it raises) for the same four arguments, called once inside the tool's
  directory, and changes back.
\<close>

theorem determine_result_delegates:
  "(wrappedTool self0 = None \<longrightarrow>
      determine_result env self0 returncode returnsignal output isTimeout w =
        (Inr ''METAVAL ERROR'', w))
   \<and> (wrappedTool self = Some t \<and> verifierName self = Some v
        \<and> map_of TOOL_TO_PATH_MAP v = Some d
        \<and> chdir_target env (join (cwd w) d) = Some td
        \<and> chdir_target env (cwd w) = Some (cwd w) \<longrightarrow>
      determine_result env self returncode returnsignal output isTimeout w =
        (raised_by_wrapped
           (wrapped_determine_result t td returncode returnsignal output isTimeout),
         \<lparr>cwd = cwd w,
          trace = trace w @ [Chdir (join (cwd w) d),
                             WrappedDetermineResult td returncode returnsignal output isTimeout,
                             Chdir (cwd w)]\<rparr>))"
proof (intro conjI impI)
  assume "wrappedTool self0 = None"
  then show "determine_result env self0 returncode returnsignal output isTimeout w =
               (Inr ''METAVAL ERROR'', w)"
    by (simp add: determine_result_def)
next
  assume a: "wrappedTool self = Some t \<and> verifierName self = Some v
        \<and> map_of TOOL_TO_PATH_MAP v = Some d
        \<and> chdir_target env (join (cwd w) d) = Some td
        \<and> chdir_target env (cwd w) = Some (cwd w)"
  then show "determine_result env self returncode returnsignal output isTimeout w =
        (raised_by_wrapped
           (wrapped_determine_result t td returncode returnsignal output isTimeout),
         \<lparr>cwd = cwd w,
          trace = trace w @ [Chdir (join (cwd w) d),
                             WrappedDetermineResult td returncode returnsignal output isTimeout,
                             Chdir (cwd w)]\<rparr>)"
    by (simp add: determine_result_def in_tool_directory_def Let_def chdir_def record_event_def)
qed

theorem determine_result_delegates_witness:
  "wrappedTool init = None
   \<and> determine_result demo_env init 1 0 [''out''] False demo_world =
       (Inr ''METAVAL ERROR'', demo_world)
   \<and> wrappedTool esbmc_resolved = Some esbmc_tool
   \<and> verifierName esbmc_resolved = Some ''esbmc''
   \<and> map_of TOOL_TO_PATH_MAP ''esbmc'' = Some ''esbmc''
   \<and> chdir_target demo_env (join (cwd demo_world) ''esbmc'') = Some ''/home/u/esbmc''
   \<and> chdir_target demo_env (cwd demo_world) = Some (cwd demo_world)
   \<and> determine_result demo_env esbmc_resolved 1 0 [''out''] False demo_world =
       (Inr ''unknown'',
        \<lparr>cwd = ''/home/u'',
         trace = [Chdir ''/home/u/esbmc'',
                  WrappedDetermineResult ''/home/u/esbmc'' 1 0 [''out''] False,
                  Chdir ''/home/u'']\<rparr>)"
proof -
  have h: "wrappedTool init = None" "wrappedTool esbmc_resolved = Some esbmc_tool"
    "verifierName esbmc_resolved = Some ''esbmc''"
    "map_of TOOL_TO_PATH_MAP ''esbmc'' = Some ''esbmc''"
    "chdir_target demo_env (join (cwd demo_world) ''esbmc'') = Some ''/home/u/esbmc''"
    "chdir_target demo_env (cwd demo_world) = Some (cwd demo_world)"
    by (simp_all add: init_def esbmc_resolved_def TOOL_TO_PATH_MAP_def demo_world_def
        join_demo demo_env_fields)
  show ?thesis
    using h determine_result_delegates [of init demo_env 1 0 "[''out'']" False demo_world
        esbmc_resolved esbmc_tool "''esbmc''" "''esbmc''" "''/home/u/esbmc''"]
    by (simp add: esbmc_fields raised_by_wrapped_def demo_world_def join_demo)
qed

lemma cmdline_cbmc:
  "cmdline demo_env init ''metaval.sh'' cbmc_options [''t.c''] (Some ''prop.prp'') []
     demo_world =
   (Inl (KeyError ''cbmc''), cbmc_resolved,
    \<lparr>cwd = ''/home/u'', trace = [Import ''benchexec.tools.cbmc'', Chdir ''/home/u'']\<rparr>)"
  by (simp add: cmdline_def parse_cbmc_options lower_demo resolve_wrapped_tool_def init_def
      demo_env_fields demo_world_def record_event_def in_tool_directory_def TOOL_TO_PATH_MAP_def
      chdir_def Let_def cbmc_resolved_def)

text \<open>
  Claim C4 as stated fails on an instance resolved to a module that the map has no
  directory for. Such an instance is what a \<open>cmdline\<close> call with \<open>--metaval cbmc\<close>
  leaves; the wrapped \<open>determine_result\<close> would return \<open>true\<close>, but the adapter raises
  \<open>KeyError\<close> before calling it.
\<close>

theorem determine_result_key_error:
  "fst (snd (cmdline demo_env init ''metaval.sh'' cbmc_options [''t.c''] (Some ''prop.prp'') []
               demo_world)) = cbmc_resolved
   \<and> wrappedTool cbmc_resolved = Some cbmc_tool
   \<and> wrapped_determine_result cbmc_tool ''/home/u'' 0 0 [] False = Inr ''true''
   \<and> determine_result demo_env cbmc_resolved 0 0 [] False demo_world =
       (Inl (KeyError ''cbmc''), \<lparr>cwd = ''/home/u'', trace = [Chdir ''/home/u'']\<rparr>)"
  by (simp add: cmdline_cbmc cbmc_fields)
     (simp add: cbmc_resolved_def determine_result_def in_tool_directory_def Let_def
        TOOL_TO_PATH_MAP_def chdir_def record_event_def demo_env_fields demo_world_def)

subsection \<open>An identifier that loads but has no directory\<close>

lemma cmdline_unmapped_resolved:
  assumes "wrappedTool self = Some t" and "verifierName self = Some v"
    and "map_of TOOL_TO_PATH_MAP v = None"
    and "parse_known_args options = Inr (k, rest)" and "metaval k = Some m" and "lower m = v"
    and "chdir_target env (cwd w) = Some (cwd w)"
  shows "cmdline env self executable options tasks propertyfile rlimits w =
           (Inl (KeyError v), self, \<lparr>cwd = cwd w, trace = trace w @ [Chdir (cwd w)]\<rparr>)"
proof -
  from parse_known_args_required[OF assms(4)] obtain wn where "metavalWitness k = Some wn"
    by auto
  with assms show ?thesis
    by (simp add: cmdline_parsed resolve_resolved in_tool_directory_missing_key)
qed

lemma determine_result_unmapped:
  assumes "wrappedTool self = Some t" and "verifierName self = Some v"
    and "map_of TOOL_TO_PATH_MAP v = None"
    and "chdir_target env (cwd w) = Some (cwd w)"
  shows "determine_result env self returncode returnsignal output isTimeout w =
           (Inl (KeyError v), \<lparr>cwd = cwd w, trace = trace w @ [Chdir (cwd w)]\<rparr>)"
  using assms by (simp add: determine_result_def in_tool_directory_missing_key)

text \<open>
  Claim C10, as amended. For an identifier whose module loads but which is not a key of
  the map, a \<open>cmdline\<close> call on an instance without a wrapped module records the
  identifier and the module and then raises \<open>KeyError\<close> in the directory change. The
  instance stays resolved to that identifier through every later sequence of calls;
  every later \<open>determine_result\<close> call and every later \<open>cmdline\<close> call whose options
  parse and carry the same identifier raise the same \<open>KeyError\<close>. (The process is
  taken to be in a directory that exists at each call.)
\<close>

theorem unmapped_identifier_key_error:
  assumes "map_of TOOL_TO_PATH_MAP v = None"
    and "modules env (''benchexec.tools.'' @ v) = Some t"
    and "wrappedTool self = None"
    and "parse_known_args options = Inr (k, rest)" and "metaval k = Some m" and "lower m = v"
    and "chdir_target env (cwd w) = Some (cwd w)"
  shows "cmdline env self executable options tasks propertyfile rlimits w =
           (Inl (KeyError v), self\<lparr>verifierName := Some v, wrappedTool := Some t\<rparr>,
            \<lparr>cwd = cwd w,
             trace = trace w @ [Import (''benchexec.tools.'' @ v), Chdir (cwd w)]\<rparr>)
         \<and> fst (snd (run env reqs (self\<lparr>verifierName := Some v, wrappedTool := Some t\<rparr>) w1)) =
             self\<lparr>verifierName := Some v, wrappedTool := Some t\<rparr>
         \<and> (chdir_target env (cwd w2) = Some (cwd w2) \<longrightarrow>
              fst (determine_result env (self\<lparr>verifierName := Some v, wrappedTool := Some t\<rparr>)
                     returncode returnsignal output isTimeout w2) = Inl (KeyError v))
         \<and> (chdir_target env (cwd w2) = Some (cwd w2)
              \<and> parse_known_args options2 = Inr (k2, rest2) \<and> metaval k2 = Some m2
              \<and> lower m2 = v \<longrightarrow>
              fst (cmdline env (self\<lparr>verifierName := Some v, wrappedTool := Some t\<rparr>)
                     executable2 options2 tasks2 propertyfile2 rlimits2 w2) = Inl (KeyError v))"
proof (intro conjI impI)
  from parse_known_args_required[OF assms(4)] obtain wn where "metavalWitness k = Some wn"
    by auto
  with assms show "cmdline env self executable options tasks propertyfile rlimits w =
           (Inl (KeyError v), self\<lparr>verifierName := Some v, wrappedTool := Some t\<rparr>,
            \<lparr>cwd = cwd w,
             trace = trace w @ [Import (''benchexec.tools.'' @ v), Chdir (cwd w)]\<rparr>)"
    by (simp add: cmdline_parsed resolve_fresh_loadable in_tool_directory_missing_key
        record_event_def)
next
  show "fst (snd (run env reqs (self\<lparr>verifierName := Some v, wrappedTool := Some t\<rparr>) w1)) =
             self\<lparr>verifierName := Some v, wrappedTool := Some t\<rparr>"
    by (rule run_keeps_resolved[of _ t]) simp
next
  assume "chdir_target env (cwd w2) = Some (cwd w2)"
  with assms(1) show "fst (determine_result env
            (self\<lparr>verifierName := Some v, wrappedTool := Some t\<rparr>)
            returncode returnsignal output isTimeout w2) = Inl (KeyError v)"
    by (simp add: determine_result_unmapped[of _ t v])
next
  assume a: "chdir_target env (cwd w2) = Some (cwd w2)
              \<and> parse_known_args options2 = Inr (k2, rest2) \<and> metaval k2 = Some m2
              \<and> lower m2 = v"
  have "cmdline env (self\<lparr>verifierName := Some v, wrappedTool := Some t\<rparr>)
          executable2 options2 tasks2 propertyfile2 rlimits2 w2 =
        (Inl (KeyError v), self\<lparr>verifierName := Some v, wrappedTool := Some t\<rparr>,
         \<lparr>cwd = cwd w2, trace = trace w2 @ [Chdir (cwd w2)]\<rparr>)"
    by (rule cmdline_unmapped_resolved[of _ t v _ k2 rest2 m2]) (use a assms(1) in simp_all)
  then show "fst (cmdline env (self\<lparr>verifierName := Some v, wrappedTool := Some t\<rparr>)
                     executable2 options2 tasks2 propertyfile2 rlimits2 w2) = Inl (KeyError v)"
    by simp
qed

theorem unmapped_identifier_key_error_witness:
  "map_of TOOL_TO_PATH_MAP ''cbmc'' = None
   \<and> modules demo_env (''benchexec.tools.'' @ ''cbmc'') = Some cbmc_tool
   \<and> wrappedTool init = None
   \<and> lower ''cbmc'' = ''cbmc'' \<and> lower ''CBMC'' = ''cbmc''
   \<and> chdir_target demo_env (cwd demo_world) = Some (cwd demo_world)
   \<and> cmdline demo_env init ''metaval.sh'' cbmc_options [''t.c''] (Some ''prop.prp'') []
        demo_world =
       (Inl (KeyError ''cbmc''), cbmc_resolved,
        \<lparr>cwd = ''/home/u'', trace = [Import ''benchexec.tools.cbmc'', Chdir ''/home/u'']\<rparr>)
   \<and> fst (snd (run demo_env
                 [CallDetermineResult 0 0 [] False,
                  CallCmdline ''metaval.sh'' demo_options [''t.c''] (Some ''prop.prp'') []]
                 cbmc_resolved demo_world)) = cbmc_resolved
   \<and> fst (determine_result demo_env cbmc_resolved 0 0 [] False demo_world) =
       Inl (KeyError ''cbmc'')
   \<and> fst (cmdline demo_env cbmc_resolved ''metaval.sh''
            [''--metavalWitness'', ''w2.graphml'', ''--metaval'', ''CBMC'', ''--x'']
            [''t2.c''] None [] demo_world) = Inl (KeyError ''cbmc'')"
proof -
  have h1: "map_of TOOL_TO_PATH_MAP ''cbmc'' = None" by (simp add: TOOL_TO_PATH_MAP_def)
  have h2: "modules demo_env (''benchexec.tools.'' @ ''cbmc'') = Some cbmc_tool"
    by (simp add: demo_env_fields)
  have h3: "wrappedTool init = None" by (simp add: init_def)
  have h4: "metaval \<lparr>metavalWitness = Some ''w.graphml'', metaval = Some ''cbmc'',
           metavalAdditionalPATH = None, metavalWitnessType = None\<rparr> = Some ''cbmc''" by simp
  have h5: "lower ''cbmc'' = ''cbmc''" "lower ''CBMC'' = ''cbmc''"
    by (simp_all add: lower_def lower_char_def)
  have h6: "chdir_target demo_env (cwd demo_world) = Some (cwd demo_world)"
    by (simp add: demo_world_def demo_env_fields)
  have h7: "parse_known_args [''--metavalWitness'', ''w2.graphml'', ''--metaval'', ''CBMC'', ''--x'']
     = Inr (\<lparr>metavalWitness = Some ''w2.graphml'', metaval = Some ''CBMC'',
           metavalAdditionalPATH = None, metavalWitnessType = None\<rparr>, [''--x''])"
    by (simp add: parse_defs)
  have h8: "init\<lparr>verifierName := Some ''cbmc'', wrappedTool := Some cbmc_tool\<rparr> = cbmc_resolved"
    by (simp add: init_def cbmc_resolved_def)
  show ?thesis
    using h1 h2 h3 h5 h6 h7
      unmapped_identifier_key_error [OF h1 h2 h3 parse_cbmc_options h4 h5(1) h6,
        of "''metaval.sh''" "[''t.c'']" "Some ''prop.prp''" "[]"
           "[CallDetermineResult 0 0 [] False,
             CallCmdline ''metaval.sh'' demo_options [''t.c''] (Some ''prop.prp'') []]"
           demo_world demo_world 0 0 "[]" False
           "[''--metavalWitness'', ''w2.graphml'', ''--metaval'', ''CBMC'', ''--x'']"
           "\<lparr>metavalWitness = Some ''w2.graphml'', metaval = Some ''CBMC'',
             metavalAdditionalPATH = None, metavalWitnessType = None\<rparr>"
           "[''--x'']" "''CBMC''" "''metaval.sh''" "[''t2.c'']" None "[]"]
    unfolding h8
    by (simp add: demo_world_def)
qed

text \<open>
  Claim C10 as stated fails for later \<open>cmdline\<close> calls that carry another identifier or
  lack a required option: after the call for \<open>cbmc\<close> has raised \<open>KeyError\<close>, a call for
  \<open>ESBMC\<close> ends in the mixed-wrapped-tools exit and a call without options in the usage
  exit of the parser, both specified fatal exits, not in the \<open>KeyError\<close>.
\<close>

theorem unmapped_identifier_later_exits:
  "run demo_env
     [CallCmdline ''metaval.sh'' cbmc_options [''t.c''] (Some ''prop.prp'') [],
      CallCmdline ''metaval.sh'' demo_options [''t.c''] (Some ''prop.prp'') [],
      CallCmdline ''metaval.sh'' [] [''t.c''] (Some ''prop.prp'') []]
     init demo_world =
   ([Raised (KeyError ''cbmc''),
     Raised (SysExit ''metaval is called with mixed wrapped tools''),
     Raised ArgparseExit],
    cbmc_resolved,
    \<lparr>cwd = ''/home/u'', trace = [Import ''benchexec.tools.cbmc'', Chdir ''/home/u'']\<rparr>)"
proof -
  have a: "parse_known_args [] = Inl ArgparseExit" by (simp add: parse_defs)
  have c: "lower ''ESBMC'' \<noteq> ''cbmc''" by (simp add: lower_ESBMC)
  have d: "metaval \<lparr>metavalWitness = Some ''w.graphml'', metaval = Some ''ESBMC'',
           metavalAdditionalPATH = None, metavalWitnessType = None\<rparr> = Some ''ESBMC''" by simp
  have b: "cmdline demo_env cbmc_resolved ''metaval.sh'' demo_options [''t.c'']
             (Some ''prop.prp'') [] w =
           (Inl (SysExit ''metaval is called with mixed wrapped tools''), cbmc_resolved, w)" for w
    by (rule cmdline_mixed[of _ cbmc_tool "''cbmc''", OF _ _ parse_demo_options d c])
       (simp_all add: cbmc_resolved_def)
  show ?thesis
    by (simp add: cmdline_cbmc b cmdline_unparsed[OF a])
qed

subsection \<open>How often the wrapped module is imported\<close>













subsection \<open>What a returning cmdline call has done\<close>

lemma wrapped_options_success:
  assumes "wrapped_options t options propertyfile rlimits oldcwd w = (Inr x, w')"
  shows "\<exists>exe task pf pf_rel.
           wrapped_executable t (cwd w) = Inr exe
         \<and> relpath (cwd w) (join oldcwd ''output/ARG.c'') = Inr task
         \<and> propertyfile = Some pf
         \<and> relpath (cwd w) (join oldcwd pf) = Inr pf_rel
         \<and> wrapped_cmdline t (cwd w) exe options [task] pf_rel rlimits = Inr x
         \<and> trace w' = trace w @ [WrappedExecutable (cwd w),
                                  WrappedCmdline (cwd w) exe options [task] pf_rel rlimits]"
  using assms
  by (auto simp: wrapped_options_def Let_def record_event_def raised_by_wrapped_def
      split: sum.splits option.splits)

lemma in_tool_directory_success:
  assumes "in_tool_directory env self body w = (Inr x, w')"
  shows "\<exists>v d td w1.
           verifierName self = Some v
         \<and> map_of TOOL_TO_PATH_MAP v = Some d
         \<and> chdir_target env (join (cwd w) d) = Some td
         \<and> body (cwd w) \<lparr>cwd = td, trace = trace w @ [Chdir (join (cwd w) d)]\<rparr> = (Inr x, w1)
         \<and> trace w' = trace w1 @ [Chdir (cwd w)]"
proof (cases "verifierName self")
  case None
  with assms show ?thesis
    by (auto simp: in_tool_directory_def Let_def chdir_def split: option.splits)
next
  case v: (Some v)
  show ?thesis
  proof (cases "map_of TOOL_TO_PATH_MAP v")
    case None
    with v assms show ?thesis
      by (auto simp: in_tool_directory_def Let_def chdir_def split: option.splits)
  next
    case d: (Some d)
    show ?thesis
    proof (cases "chdir_target env (join (cwd w) d)")
      case None
      with v d assms show ?thesis
        by (auto simp: in_tool_directory_def Let_def chdir_def split: option.splits)
    next
      case td: (Some td)
      obtain r1 w1 where b:
        "body (cwd w) \<lparr>cwd = td, trace = trace w @ [Chdir (join (cwd w) d)]\<rparr> = (r1, w1)"
        by (cases "body (cwd w) \<lparr>cwd = td, trace = trace w @ [Chdir (join (cwd w) d)]\<rparr>") auto
      with v d td assms have "r1 = Inr x \<and> trace w' = trace w1 @ [Chdir (cwd w)]"
        by (auto simp: in_tool_directory_def Let_def chdir_def record_event_def world_update
            split: option.splits)
      with v d td b show ?thesis by simp
    qed
  qed
qed

lemma resolve_success:
  assumes "resolve_wrapped_tool env self v w = (Inr u, self1, w1)"
  shows "\<exists>t pre. wrappedTool self1 = Some t \<and> verifierName self1 = Some v
           \<and> cwd w1 = cwd w \<and> trace w1 = trace w @ pre
           \<and> (pre = [] \<or> pre = [Import (''benchexec.tools.'' @ v)])"
  using assms
  by (auto simp: resolve_wrapped_tool_def Let_def record_event_def
      split: option.splits if_splits)

lemma cmdline_success:
  assumes c: "cmdline env self executable options tasks propertyfile rlimits w =
                (Inr argv, self1, w1)"
    and p: "parse_known_args options = Inr (k, rest)"
  shows "\<exists>m wn d t td exe task pf pf_rel sub_argv pre.
           metaval k = Some m \<and> metavalWitness k = Some wn
         \<and> map_of TOOL_TO_PATH_MAP (lower m) = Some d
         \<and> wrappedTool self1 = Some t \<and> verifierName self1 = Some (lower m)
         \<and> chdir_target env (join (cwd w) d) = Some td
         \<and> wrapped_executable t td = Inr exe
         \<and> relpath td (join (cwd w) ''output/ARG.c'') = Inr task
         \<and> propertyfile = Some pf
         \<and> relpath td (join (cwd w) pf) = Inr pf_rel
         \<and> wrapped_cmdline t td exe rest [task] pf_rel rlimits = Inr sub_argv
         \<and> (pre = [] \<or> pre = [Import (''benchexec.tools.'' @ lower m)])
         \<and> trace w1 = trace w @ pre @
                [Chdir (join (cwd w) d), WrappedExecutable td,
                 WrappedCmdline td exe rest [task] pf_rel rlimits, Chdir (cwd w)]
         \<and> argv = [executable, ''--verifier'', d, ''--witness'', wn]
                @ (case metavalAdditionalPATH k of
                     Some p \<Rightarrow> if p \<noteq> [] then [''--additionalPATH'', p] else []
                   | None \<Rightarrow> [])
                @ (case metavalWitnessType k of
                     Some ty \<Rightarrow> if ty \<noteq> [] then [''--witnessType'', ty] else []
                   | None \<Rightarrow> [])
                @ tasks @ [''--''] @ sub_argv"
proof -
  from parse_known_args_required[OF p]
  obtain m wn where m: "metaval k = Some m" and wn: "metavalWitness k = Some wn" by auto
  note cp = cmdline_parsed[OF p m wn, of env self executable tasks propertyfile rlimits w]
  obtain r s1 w' where res: "resolve_wrapped_tool env self (lower m) w = (r, s1, w')"
    by (cases "resolve_wrapped_tool env self (lower m) w") auto
  from c cp res obtain u where r: "r = Inr u" by (cases r) auto
  from resolve_success[OF res[unfolded r]]
  obtain t pre where t: "wrappedTool s1 = Some t" and vn: "verifierName s1 = Some (lower m)"
    and cw: "cwd w' = cwd w" and tr: "trace w' = trace w @ pre"
    and pre: "pre = [] \<or> pre = [Import (''benchexec.tools.'' @ lower m)]"
    by blast
  obtain r2 w2 where itd:
    "in_tool_directory env s1 (wrapped_options t rest propertyfile rlimits) w' = (r2, w2)"
    by (cases "in_tool_directory env s1 (wrapped_options t rest propertyfile rlimits) w'") auto
  from c cp res r t itd obtain sub_argv where r2: "r2 = Inr sub_argv" by (cases r2) auto
  from in_tool_directory_success[OF itd[unfolded r2]] vn cw
  obtain d td w3 where d: "map_of TOOL_TO_PATH_MAP (lower m) = Some d"
    and td: "chdir_target env (join (cwd w) d) = Some td"
    and body: "wrapped_options t rest propertyfile rlimits (cwd w)
                 \<lparr>cwd = td, trace = trace w' @ [Chdir (join (cwd w) d)]\<rparr> = (Inr sub_argv, w3)"
    and tr2: "trace w2 = trace w3 @ [Chdir (cwd w)]"
    by auto
  from wrapped_options_success[OF body]
  obtain exe task pf pf_rel where
    exe: "wrapped_executable t td = Inr exe"
    and task: "relpath td (join (cwd w) ''output/ARG.c'') = Inr task"
    and pf: "propertyfile = Some pf"
    and pf_rel: "relpath td (join (cwd w) pf) = Inr pf_rel"
    and sub: "wrapped_cmdline t td exe rest [task] pf_rel rlimits = Inr sub_argv"
    and tr3: "trace w3 = (trace w' @ [Chdir (join (cwd w) d)]) @
                [WrappedExecutable td, WrappedCmdline td exe rest [task] pf_rel rlimits]"
    by auto
  from c cp res r t itd r2 d
  have s1: "self1 = s1" and w1: "w1 = w2"
    and argv: "argv = [executable, ''--verifier'', d, ''--witness'', wn]
                @ (case metavalAdditionalPATH k of
                     Some p \<Rightarrow> if p \<noteq> [] then [''--additionalPATH'', p] else []
                   | None \<Rightarrow> [])
                @ (case metavalWitnessType k of
                     Some ty \<Rightarrow> if ty \<noteq> [] then [''--witnessType'', ty] else []
                   | None \<Rightarrow> [])
                @ tasks @ [''--''] @ sub_argv"
    by simp_all
  have "trace w1 = trace w @ pre @
                [Chdir (join (cwd w) d), WrappedExecutable td,
                 WrappedCmdline td exe rest [task] pf_rel rlimits, Chdir (cwd w)]"
    using w1 tr tr2 tr3 by simp
  with m wn d t vn s1 td exe task pf pf_rel sub pre argv show ?thesis by blast
qed

text \<open>
  Claim C6. When a \<open>cmdline\<close> call returns, it has called the wrapped \<open>cmdline\<close>
  exactly once, between the change into the tool's directory and the change back, with
  the working directory being the tool's directory \<open>td\<close>, and with these arguments:
  what the wrapped \<open>executable()\<close> returned there, the options the parser left over,
  the one-element task list holding the file \<open>output/ARG.c\<close> of the original working
  directory, the given property file taken from the original working directory, and the
  resource limits as given. Both paths are joined to the original working directory and
  then written by \<open>os.path.relpath\<close> as seen from \<open>td\<close>, the directory the wrapped module
  is called in. What that call of the wrapped \<open>cmdline\<close> returns is the part of the
  result after \<open>--\<close>.
\<close>

theorem wrapped_cmdline_arguments:
  assumes "cmdline env self executable options tasks propertyfile rlimits w =
             (Inr argv, self1, w1)"
    and "parse_known_args options = Inr (k, rest)"
  shows "\<exists>m wn d t td exe task pf pf_rel pre sub_argv.
           metaval k = Some m \<and> metavalWitness k = Some wn
         \<and> map_of TOOL_TO_PATH_MAP (lower m) = Some d
         \<and> wrappedTool self1 = Some t
         \<and> chdir_target env (join (cwd w) d) = Some td
         \<and> wrapped_executable t td = Inr exe
         \<and> relpath td (join (cwd w) ''output/ARG.c'') = Inr task
         \<and> propertyfile = Some pf
         \<and> relpath td (join (cwd w) pf) = Inr pf_rel
         \<and> wrapped_cmdline t td exe rest [task] pf_rel rlimits = Inr sub_argv
         \<and> (pre = [] \<or> pre = [Import (''benchexec.tools.'' @ lower m)])
         \<and> trace w1 = trace w @ pre @
                [Chdir (join (cwd w) d), WrappedExecutable td,
                 WrappedCmdline td exe rest [task] pf_rel rlimits, Chdir (cwd w)]
         \<and> argv = [executable, ''--verifier'', d, ''--witness'', wn]
                @ (case metavalAdditionalPATH k of
                     Some p \<Rightarrow> if p \<noteq> [] then [''--additionalPATH'', p] else []
                   | None \<Rightarrow> [])
                @ (case metavalWitnessType k of
                     Some ty \<Rightarrow> if ty \<noteq> [] then [''--witnessType'', ty] else []
                   | None \<Rightarrow> [])
                @ tasks @ [''--''] @ sub_argv"
  using cmdline_success[OF assms] by blast

theorem wrapped_cmdline_arguments_witness:
  "cmdline demo_env init ''metaval.sh''
     [''--metaval'', ''ESBMC'', ''-v'', ''--metavalWitness=w.graphml'', ''--k'', ''3'']
     [''t.c''] (Some ''prop.prp'') [(''timelimit'', 900)] demo_world =
   (Inr [''metaval.sh'', ''--verifier'', ''esbmc'', ''--witness'', ''w.graphml'', ''t.c'', ''--'',
         ''bin/esbmc'', ''-v'', ''--k'', ''3'', ''--property-file'', ''../prop.prp'',
         ''../output/ARG.c''],
    esbmc_resolved,
    \<lparr>cwd = ''/home/u'',
     trace = [Import ''benchexec.tools.esbmc'', Chdir ''/home/u/esbmc'',
              WrappedExecutable ''/home/u/esbmc'',
              WrappedCmdline ''/home/u/esbmc'' ''bin/esbmc'' [''-v'', ''--k'', ''3'']
                [''../output/ARG.c''] ''../prop.prp'' [(''timelimit'', 900)],
              Chdir ''/home/u'']\<rparr>)
   \<and> parse_known_args
         [''--metaval'', ''ESBMC'', ''-v'', ''--metavalWitness=w.graphml'', ''--k'', ''3''] =
       Inr (\<lparr>metavalWitness = Some ''w.graphml'', metaval = Some ''ESBMC'',
             metavalAdditionalPATH = None, metavalWitnessType = None\<rparr>,
            [''-v'', ''--k'', ''3''])
   \<and> wrapped_executable esbmc_tool ''/home/u/esbmc'' = Inr ''bin/esbmc''
   \<and> relpath ''/home/u/esbmc'' (join ''/home/u'' ''output/ARG.c'') = Inr ''../output/ARG.c''
   \<and> relpath ''/home/u/esbmc'' (join ''/home/u'' ''prop.prp'') = Inr ''../prop.prp''
   \<and> abspath ''/home/u/esbmc'' ''../output/ARG.c'' = ''/home/u/output/ARG.c''
   \<and> abspath ''/home/u/esbmc'' ''../prop.prp'' = ''/home/u/prop.prp''
   \<and> wrapped_cmdline esbmc_tool ''/home/u/esbmc'' ''bin/esbmc'' [''-v'', ''--k'', ''3'']
         [''../output/ARG.c''] ''../prop.prp'' [(''timelimit'', 900)] =
       Inr [''bin/esbmc'', ''-v'', ''--k'', ''3'', ''--property-file'', ''../prop.prp'',
            ''../output/ARG.c'']"
proof -
  have p: "parse_known_args
         [''--metaval'', ''ESBMC'', ''-v'', ''--metavalWitness=w.graphml'', ''--k'', ''3''] =
       Inr (\<lparr>metavalWitness = Some ''w.graphml'', metaval = Some ''ESBMC'',
             metavalAdditionalPATH = None, metavalWitnessType = None\<rparr>,
            [''-v'', ''--k'', ''3''])"
    by (simp add: parse_defs)
  have c: "cmdline demo_env init ''metaval.sh''
     [''--metaval'', ''ESBMC'', ''-v'', ''--metavalWitness=w.graphml'', ''--k'', ''3'']
     [''t.c''] (Some ''prop.prp'') [(''timelimit'', 900)] demo_world =
   (Inr [''metaval.sh'', ''--verifier'', ''esbmc'', ''--witness'', ''w.graphml'', ''t.c'', ''--'',
         ''bin/esbmc'', ''-v'', ''--k'', ''3'', ''--property-file'', ''../prop.prp'',
         ''../output/ARG.c''],
    esbmc_resolved,
    \<lparr>cwd = ''/home/u'',
     trace = [Import ''benchexec.tools.esbmc'', Chdir ''/home/u/esbmc'',
              WrappedExecutable ''/home/u/esbmc'',
              WrappedCmdline ''/home/u/esbmc'' ''bin/esbmc'' [''-v'', ''--k'', ''3'']
                [''../output/ARG.c''] ''../prop.prp'' [(''timelimit'', 900)],
              Chdir ''/home/u'']\<rparr>)"
    by (simp add: cmdline_def p lower_ESBMC resolve_wrapped_tool_def init_def
        demo_env_fields demo_world_def record_event_def in_tool_directory_def TOOL_TO_PATH_MAP_def
        chdir_def join_demo wrapped_options_def esbmc_fields Let_def relpath_demo
        raised_by_wrapped_def esbmc_resolved_def)
  have a: "abspath ''/home/u/esbmc'' ''../output/ARG.c'' = ''/home/u/output/ARG.c''"
    "abspath ''/home/u/esbmc'' ''../prop.prp'' = ''/home/u/prop.prp''"
    by (simp_all add: path_defs)
  from wrapped_cmdline_arguments [OF c p] c p relpath_demo a show ?thesis
    by (simp add: esbmc_fields)
qed

text \<open>
  Claim C1, as amended. When a \<open>cmdline\<close> call returns, the argument vector is the
  executable, \<open>--verifier\<close>, the map's directory name for the lowercased identifier,
  \<open>--witness\<close> and the witness path; then \<open>--additionalPATH\<close> and its value if one was
  given and is not empty; then \<open>--witnessType\<close> and its value if one was given and is
  not empty; then the tasks, \<open>--\<close>, and the vector the wrapped \<open>cmdline\<close> returned for
  the call made inside the tool's directory.
\<close>

theorem cmdline_argument_vector:
  assumes "cmdline env self executable options tasks propertyfile rlimits w =
             (Inr argv, self1, w1)"
    and "parse_known_args options = Inr (k, rest)"
  shows "\<exists>m wn d t td exe task pf_rel sub_argv.
           metaval k = Some m \<and> metavalWitness k = Some wn
         \<and> map_of TOOL_TO_PATH_MAP (lower m) = Some d
         \<and> wrappedTool self1 = Some t
         \<and> chdir_target env (join (cwd w) d) = Some td
         \<and> wrapped_executable t td = Inr exe
         \<and> wrapped_cmdline t td exe rest [task] pf_rel rlimits = Inr sub_argv
         \<and> argv = [executable, ''--verifier'', d, ''--witness'', wn]
                @ (case metavalAdditionalPATH k of
                     Some p \<Rightarrow> if p \<noteq> [] then [''--additionalPATH'', p] else []
                   | None \<Rightarrow> [])
                @ (case metavalWitnessType k of
                     Some ty \<Rightarrow> if ty \<noteq> [] then [''--witnessType'', ty] else []
                   | None \<Rightarrow> [])
                @ tasks @ [''--''] @ sub_argv"
  using cmdline_success[OF assms] by blast

theorem cmdline_argument_vector_witness:
  "parse_known_args
     [''--metavalWitnessType'', ''violation'', ''--metaval'', ''ESBMC'',
      ''--metavalWitness'', ''w.graphml'', ''--metavalAdditionalPATH'', ''/opt/bin''] =
     Inr (\<lparr>metavalWitness = Some ''w.graphml'', metaval = Some ''ESBMC'',
           metavalAdditionalPATH = Some ''/opt/bin'',
           metavalWitnessType = Some ''violation''\<rparr>, [])
   \<and> cmdline demo_env init ''metaval.sh''
       [''--metavalWitnessType'', ''violation'', ''--metaval'', ''ESBMC'',
        ''--metavalWitness'', ''w.graphml'', ''--metavalAdditionalPATH'', ''/opt/bin'']
       [''t.c''] (Some ''prop.prp'') [] demo_world =
     (Inr [''metaval.sh'', ''--verifier'', ''esbmc'', ''--witness'', ''w.graphml'',
           ''--additionalPATH'', ''/opt/bin'', ''--witnessType'', ''violation'',
           ''t.c'', ''--'',
           ''bin/esbmc'', ''--property-file'', ''../prop.prp'', ''../output/ARG.c''],
      esbmc_resolved,
      \<lparr>cwd = ''/home/u'',
       trace = [Import ''benchexec.tools.esbmc'', Chdir ''/home/u/esbmc'',
                WrappedExecutable ''/home/u/esbmc'',
                WrappedCmdline ''/home/u/esbmc'' ''bin/esbmc'' [] [''../output/ARG.c'']
                  ''../prop.prp'' [],
                Chdir ''/home/u'']\<rparr>)"
proof -
  have p: "parse_known_args
     [''--metavalWitnessType'', ''violation'', ''--metaval'', ''ESBMC'',
      ''--metavalWitness'', ''w.graphml'', ''--metavalAdditionalPATH'', ''/opt/bin''] =
     Inr (\<lparr>metavalWitness = Some ''w.graphml'', metaval = Some ''ESBMC'',
           metavalAdditionalPATH = Some ''/opt/bin'',
           metavalWitnessType = Some ''violation''\<rparr>, [])"
    by (simp add: parse_defs)
  have c: "cmdline demo_env init ''metaval.sh''
       [''--metavalWitnessType'', ''violation'', ''--metaval'', ''ESBMC'',
        ''--metavalWitness'', ''w.graphml'', ''--metavalAdditionalPATH'', ''/opt/bin'']
       [''t.c''] (Some ''prop.prp'') [] demo_world =
     (Inr [''metaval.sh'', ''--verifier'', ''esbmc'', ''--witness'', ''w.graphml'',
           ''--additionalPATH'', ''/opt/bin'', ''--witnessType'', ''violation'',
           ''t.c'', ''--'',
           ''bin/esbmc'', ''--property-file'', ''../prop.prp'', ''../output/ARG.c''],
      esbmc_resolved,
      \<lparr>cwd = ''/home/u'',
       trace = [Import ''benchexec.tools.esbmc'', Chdir ''/home/u/esbmc'',
                WrappedExecutable ''/home/u/esbmc'',
                WrappedCmdline ''/home/u/esbmc'' ''bin/esbmc'' [] [''../output/ARG.c'']
                  ''../prop.prp'' [],
                Chdir ''/home/u'']\<rparr>)"
    by (simp add: cmdline_def p lower_ESBMC resolve_wrapped_tool_def init_def
        demo_env_fields demo_world_def record_event_def in_tool_directory_def TOOL_TO_PATH_MAP_def
        chdir_def join_demo wrapped_options_def esbmc_fields Let_def relpath_demo
        raised_by_wrapped_def esbmc_resolved_def)
  from cmdline_argument_vector [OF c p] c p show ?thesis by simp
qed

text \<open>
  Claim C1 as stated fails where an optional option is given with an empty value: the
  parser stores the empty string, the code tests the stored value for truth, and the
  pair is left out although the option was given.
\<close>

theorem empty_additional_path_dropped:
  "parse_known_args empty_path_options =
     Inr (\<lparr>metavalWitness = Some ''w.graphml'', metaval = Some ''ESBMC'',
           metavalAdditionalPATH = Some '''', metavalWitnessType = None\<rparr>, [])
   \<and> fst (cmdline demo_env init ''metaval.sh'' empty_path_options [''t.c''] (Some ''prop.prp'')
            [] demo_world) =
       Inr [''metaval.sh'', ''--verifier'', ''esbmc'', ''--witness'', ''w.graphml'',
            ''t.c'', ''--'',
            ''bin/esbmc'', ''--property-file'', ''../prop.prp'', ''../output/ARG.c'']
   \<and> spec_argv ''metaval.sh'' ''esbmc'' ''w.graphml'' (Some '''') None [''t.c'']
         [''bin/esbmc'', ''--property-file'', ''../prop.prp'', ''../output/ARG.c''] =
       [''metaval.sh'', ''--verifier'', ''esbmc'', ''--witness'', ''w.graphml'',
        ''--additionalPATH'', '''', ''t.c'', ''--'',
        ''bin/esbmc'', ''--property-file'', ''../prop.prp'', ''../output/ARG.c'']
   \<and> fst (cmdline demo_env init ''metaval.sh'' empty_path_options [''t.c''] (Some ''prop.prp'')
            [] demo_world) \<noteq>
       Inr (spec_argv ''metaval.sh'' ''esbmc'' ''w.graphml'' (Some '''') None [''t.c'']
              [''bin/esbmc'', ''--property-file'', ''../prop.prp'', ''../output/ARG.c''])"
proof -
  have p: "parse_known_args empty_path_options =
     Inr (\<lparr>metavalWitness = Some ''w.graphml'', metaval = Some ''ESBMC'',
           metavalAdditionalPATH = Some '''', metavalWitnessType = None\<rparr>, [])"
    by (simp add: empty_path_options_def parse_defs)
  have c: "fst (cmdline demo_env init ''metaval.sh'' empty_path_options [''t.c'']
                  (Some ''prop.prp'') [] demo_world) =
       Inr [''metaval.sh'', ''--verifier'', ''esbmc'', ''--witness'', ''w.graphml'',
            ''t.c'', ''--'',
            ''bin/esbmc'', ''--property-file'', ''../prop.prp'', ''../output/ARG.c'']"
    by (simp add: cmdline_def p lower_ESBMC resolve_wrapped_tool_def init_def
        demo_env_fields demo_world_def record_event_def in_tool_directory_def TOOL_TO_PATH_MAP_def
        chdir_def join_demo wrapped_options_def esbmc_fields Let_def relpath_demo
        raised_by_wrapped_def)
  show ?thesis
    unfolding c p by (simp add: spec_argv_def)
qed

end
